theory Spec2Isabelle
  imports Main
begin

section \<open>The quiz bot of \<open>simple_bot.py\<close>\<close>

text \<open>
  The bot keeps its questions in \<open>data/questions.json\<close> and its per-user counters in
  \<open>data/users.json\<close>. Every operation reads the whole file, changes the value it has
  read and writes the whole file back. The embedding below follows the source function by
  function; each handler takes the part of the outside world it touches and returns it
  updated.
\<close>

subsection \<open>Data model\<close>

text \<open>
  A question is the dict the program writes: the keys \<open>id\<close>, \<open>question\<close>,
  \<open>options\<close>, \<open>answer\<close> and \<open>category\<close>. The source reads \<open>id\<close> and
  \<open>category\<close> with \<open>dict.get\<close>, so a record may lack them (\<open>None\<close>); it writes
  \<open>question\<close> and \<open>options\<close> from \<open>context.user_data.get(...)\<close>, which is
  \<open>None\<close> (JSON \<open>null\<close>) when the draft is gone; \<open>answer\<close> is read with
  \<open>q["answer"]\<close> and is always an integer.
\<close>

record quiz_question =
  qid :: "int option"
  question :: "string option"
  options :: "string list option"
  answer :: int
  category :: "string option"

text \<open>
  What is on disk under a file name: no file, a file that cannot be read or parsed
  (\<open>open\<close> or \<open>json.load\<close> raises), or a file holding a value of the expected shape.
\<close>

datatype 'a disk_file = Missing | Unreadable | Content 'a

text \<open>
  The questions file together with the one fact about the environment the code depends on:
  whether opening the file for writing succeeds. A write that fails leaves the file as it
  was (\<open>save_questions\<close> catches the exception and returns \<open>False\<close>).
\<close>

record questions_store =
  questions_file :: "quiz_question list disk_file"
  questions_writable :: bool

subsection \<open>The question store (lines 39--104)\<close>

definition sample_questions :: "quiz_question list" where
  "sample_questions =
     [\<lparr>qid = Some 1, question = Some ''What is the capital of France?'',
       options = Some [''Berlin'', ''Madrid'', ''Paris'', ''Rome''],
       answer = 2, category = Some ''Geography''\<rparr>,
      \<lparr>qid = Some 2, question = Some ''Which planet is known as the Red Planet?'',
       options = Some [''Venus'', ''Mars'', ''Jupiter'', ''Saturn''],
       answer = 1, category = Some ''Science''\<rparr>]"

definition save_questions :: "quiz_question list \<Rightarrow> questions_store \<Rightarrow> bool \<times> questions_store" where
  "save_questions questions st =
     (if questions_writable st then (True, st\<lparr>questions_file := Content questions\<rparr>)
      else (False, st))"

definition load_questions :: "questions_store \<Rightarrow> quiz_question list \<times> questions_store" where
  "load_questions st =
     (case questions_file st of
        Content questions \<Rightarrow> (questions, st)
      | Missing \<Rightarrow> (sample_questions, snd (save_questions sample_questions st))
      | Unreadable \<Rightarrow> ([], st))"

text \<open>
  \<open>q.get("id", 0)\<close>, and Python's \<open>max\<close> of these values over a non-empty list as a
  left-to-right fold; the empty list is answered before \<open>max\<close> is reached.
\<close>

definition get_id_or_0 :: "quiz_question \<Rightarrow> int" where
  "get_id_or_0 q = (case qid q of None \<Rightarrow> 0 | Some i \<Rightarrow> i)"

definition get_next_question_id :: "questions_store \<Rightarrow> int \<times> questions_store" where
  "get_next_question_id st =
     (case load_questions st of
        (questions, st') \<Rightarrow>
          (case map get_id_or_0 questions of
             [] \<Rightarrow> (1, st')
           | i # ids \<Rightarrow> (fold max ids i + 1, st')))"

text \<open>The loop returns the first record whose \<open>id\<close> equals the argument.\<close>

definition get_question_by_id :: "int \<Rightarrow> questions_store \<Rightarrow> quiz_question option \<times> questions_store" where
  "get_question_by_id question_id st =
     (case load_questions st of
        (questions, st') \<Rightarrow> (find (\<lambda>q. qid q = Some question_id) questions, st'))"

definition delete_question_by_id :: "int \<Rightarrow> questions_store \<Rightarrow> bool \<times> questions_store" where
  "delete_question_by_id question_id st =
     (case load_questions st of
        (questions, st') \<Rightarrow>
          (let updated_questions = filter (\<lambda>q. qid q \<noteq> Some question_id) questions
           in if length updated_questions < length questions
              then (True, snd (save_questions updated_questions st'))
              else (False, st')))"

text \<open>The collection an operation sees: what \<open>load_questions\<close> returns.\<close>

definition stored :: "questions_store \<Rightarrow> quiz_question list" where
  "stored st = fst (load_questions st)"

subsection \<open>Text: lines and trimming\<close>

text \<open>
  A Python \<open>str\<close> is modelled as a \<open>string\<close> whose characters are the code points below
  256. \<open>isspace\<close> is \<open>str.isspace\<close> on that range: tab to carriage return, the four
  separators \<open>0x1C\<close> to \<open>0x1F\<close>, the space, \<open>0x85\<close> and \<open>0xA0\<close>.
\<close>

definition isspace :: "char \<Rightarrow> bool" where
  "isspace c =
     (let n = (of_char c :: nat)
      in (9 \<le> n \<and> n \<le> 13) \<or> (28 \<le> n \<and> n \<le> 32) \<or> n = 133 \<or> n = 160)"

text \<open>\<open>s.strip()\<close>: whitespace removed at both ends.\<close>

definition strip :: "string \<Rightarrow> string" where
  "strip s = rev (dropWhile isspace (rev (dropWhile isspace s)))"

text \<open>\<open>s.split(sep)\<close> for a one-character separator: the pieces between separators; the
  empty text gives one empty piece.\<close>

fun py_split :: "char \<Rightarrow> string \<Rightarrow> string list" where
  "py_split sep [] = [[]]"
| "py_split sep (c # cs) =
     (if c = sep then [] # py_split sep cs
      else (case py_split sep cs of
              [] \<Rightarrow> [[c]]
            | l # ls \<Rightarrow> (c # l) # ls))"

definition newline :: char where
  "newline = CHR 0x0A"

text \<open>
  \<open>[opt.strip() for opt in text.split('\n') if opt.strip()]\<close>, the expression of
  \<open>get_options\<close> (line 509) and of \<open>handle_edit_options\<close> (line 1399).
\<close>

definition split_options :: "string \<Rightarrow> string list" where
  "split_options options_text =
     map strip (filter (\<lambda>opt. strip opt \<noteq> []) (py_split newline options_text))"

text \<open>\<open>str(n)\<close> for an integer: decimal digits, a minus sign in front when negative.\<close>

definition digit_char :: "nat \<Rightarrow> char" where
  "digit_char d = ''0123456789'' ! d"

fun decimal :: "nat \<Rightarrow> string" where
  "decimal n = (if n < 10 then [digit_char n] else decimal (n div 10) @ [digit_char (n mod 10)])"

definition py_str :: "int \<Rightarrow> string" where
  "py_str i = (if i < 0 then CHR ''-'' # decimal (nat (- i)) else decimal (nat i))"

subsection \<open>The conversation scratch and handler outcomes\<close>

text \<open>
  \<open>context.user_data\<close>: the keys the handlers use. \<open>None\<close> is a key that is not set,
  which is what \<open>user_data.get(key)\<close> returns.
\<close>

record scratch =
  quiz_correct_answer :: "int option"
  quiz_question_id :: "int option"
  quiz_message_id :: "int option"
  quiz_question :: "string option"
  quiz_options :: "string list option"
  poll_to_quiz :: "(string \<times> string list) option"
  editing :: "(int \<times> string) option"

text \<open>\<open>context.user_data.clear()\<close>\<close>

definition cleared :: scratch where
  "cleared =
     \<lparr>quiz_correct_answer = None, quiz_question_id = None, quiz_message_id = None,
      quiz_question = None, quiz_options = None, poll_to_quiz = None, editing = None\<rparr>"

datatype conv_state =
  QUESTION | OPTIONS | ANSWER | EDIT_SELECT | EDIT_QUESTION | EDIT_OPTIONS | EDIT_ANSWER
  | CLONE_URL | CLONE_MANUAL | END

datatype py_error = ValueError | IndexError | TypeError | AttributeError | RuntimeError

text \<open>
  A handler returns a conversation state (\<open>None\<close> for a plain \<open>return\<close>) or leaves with
  an exception. Whatever it wrote before the exception stays written.
\<close>

datatype outcome = Returned "conv_state option" | Raised py_error

text \<open>
  \<open>xs[i]\<close>: the element at \<open>i\<close>, counted from the end when \<open>i\<close> is negative;
  \<open>None\<close> stands for the \<open>IndexError\<close> of an index outside the list.
\<close>

definition py_index :: "'a list \<Rightarrow> int \<Rightarrow> 'a option" where
  "py_index xs i =
     (if 0 \<le> i \<and> i < int (length xs) then Some (xs ! nat i)
      else if i < 0 \<and> - int (length xs) \<le> i then Some (xs ! nat (int (length xs) + i))
      else None)"

text \<open>A \<open>for ... if ...: ...; break\<close> loop: the first element that matches is changed.\<close>

fun update_first :: "('a \<Rightarrow> bool) \<Rightarrow> ('a \<Rightarrow> 'a) \<Rightarrow> 'a list \<Rightarrow> 'a list" where
  "update_first P f [] = []"
| "update_first P f (x # xs) = (if P x then f x # xs else x # update_first P f xs)"

subsection \<open>Creating a question (lines 506--571 and 1216--1268)\<close>

definition get_options :: "string \<Rightarrow> scratch \<Rightarrow> outcome \<times> scratch" where
  "get_options options_text sc =
     (let opts = split_options options_text
      in if length opts < 2 then (Returned (Some OPTIONS), sc)
         else (Returned (Some ANSWER), sc\<lparr>quiz_options := Some opts\<rparr>))"

text \<open>
  The selection arrives as callback data \<open>answer_<i>\<close>; the argument is
  \<open>int(query.data.split('_')[1])\<close>, \<open>None\<close> when \<open>int\<close> raises. The record is written
  before the reply text reads \<open>options[answer_idx]\<close>.
\<close>

definition get_answer :: "int option \<Rightarrow> scratch \<Rightarrow> questions_store \<Rightarrow> outcome \<times> scratch \<times> questions_store" where
  "get_answer payload sc st =
     (case payload of
        None \<Rightarrow> (Raised ValueError, sc, st)
      | Some answer_idx \<Rightarrow>
          (case get_next_question_id st of
             (question_id, st1) \<Rightarrow>
               (let new_question =
                      \<lparr>qid = Some question_id, question = quiz_question sc,
                       options = quiz_options sc, answer = answer_idx,
                       category = Some ''User Created''\<rparr>
                in case load_questions st1 of
                     (questions, st2) \<Rightarrow>
                       (case save_questions (questions @ [new_question]) st2 of
                          (_, st3) \<Rightarrow>
                            (case quiz_options sc of
                               None \<Rightarrow> (Raised TypeError, sc, st3)
                             | Some opts \<Rightarrow>
                                 (case py_index opts answer_idx of
                                    None \<Rightarrow> (Raised IndexError, sc, st3)
                                  | Some _ \<Rightarrow> (Returned (Some END), cleared, st3)))))))"

definition handle_poll_to_quiz :: "int option \<Rightarrow> scratch \<Rightarrow> questions_store \<Rightarrow> outcome \<times> scratch \<times> questions_store" where
  "handle_poll_to_quiz payload sc st =
     (case payload of
        None \<Rightarrow> (Raised ValueError, sc, st)
      | Some option_id \<Rightarrow>
          (case poll_to_quiz sc of
             None \<Rightarrow> (Returned None, sc, st)
           | Some (poll_question, poll_options) \<Rightarrow>
               (case get_next_question_id st of
                  (question_id, st1) \<Rightarrow>
                    (let new_question =
                           \<lparr>qid = Some question_id, question = Some poll_question,
                            options = Some poll_options, answer = option_id,
                            category = Some ''Converted Poll''\<rparr>
                     in case load_questions st1 of
                          (questions, st2) \<Rightarrow>
                            (case save_questions (questions @ [new_question]) st2 of
                               (_, st3) \<Rightarrow> (Returned None, sc\<lparr>poll_to_quiz := None\<rparr>, st3))))))"

subsection \<open>Editing a question (lines 1396--1497)\<close>

text \<open>
  After the write both edit handlers read the record again and walk over its options for
  the reply; that raises \<open>TypeError\<close> when the record or its options are \<open>None\<close>.
\<close>

definition reply_after_edit :: "int \<Rightarrow> scratch \<Rightarrow> questions_store \<Rightarrow> outcome \<times> scratch \<times> questions_store" where
  "reply_after_edit question_id sc st =
     (case get_question_by_id question_id st of
        (None, st') \<Rightarrow> (Raised TypeError, sc, st')
      | (Some updated_question, st') \<Rightarrow>
          (case options updated_question of
             None \<Rightarrow> (Raised TypeError, sc, st')
           | Some _ \<Rightarrow> (Returned (Some END), sc, st')))"

definition handle_edit_options :: "string \<Rightarrow> scratch \<Rightarrow> questions_store \<Rightarrow> outcome \<times> scratch \<times> questions_store" where
  "handle_edit_options new_options_text sc st =
     (let new_options = split_options new_options_text
      in if length new_options < 2 then (Returned (Some EDIT_OPTIONS), sc, st)
         else (case editing sc of
                 None \<Rightarrow> (Returned (Some END), sc, st)
               | Some (question_id, action) \<Rightarrow>
                   (case get_question_by_id question_id st of
                      (None, st1) \<Rightarrow> (Returned (Some END), sc, st1)
                    | (Some found, st1) \<Rightarrow>
                        (let old_answer = answer found
                         in case load_questions st1 of
                              (questions, st2) \<Rightarrow>
                                (let questions' =
                                       update_first (\<lambda>q. qid q = Some question_id)
                                         (\<lambda>q. if old_answer \<ge> int (length new_options)
                                              then q\<lparr>options := Some new_options, answer := 0\<rparr>
                                              else q\<lparr>options := Some new_options\<rparr>)
                                         questions
                                 in case save_questions questions' st2 of
                                      (_, st3) \<Rightarrow>
                                        reply_after_edit question_id (sc\<lparr>editing := None\<rparr>) st3)))))"

text \<open>
  The callback data is \<open>editanswer_<question id>_<option index>\<close>. Data with fewer than
  three parts, or whose numbers do not parse, ends the conversation untouched.
\<close>

datatype edit_answer_payload = Malformed | Selection int int

definition handle_edit_answer :: "edit_answer_payload \<Rightarrow> scratch \<Rightarrow> questions_store \<Rightarrow> outcome \<times> scratch \<times> questions_store" where
  "handle_edit_answer payload sc st =
     (case payload of
        Malformed \<Rightarrow> (Returned (Some END), sc, st)
      | Selection question_id new_answer \<Rightarrow>
          (case load_questions st of
             (questions, st1) \<Rightarrow>
               (let questions' =
                      update_first (\<lambda>q. qid q = Some question_id)
                        (\<lambda>q. q\<lparr>answer := new_answer\<rparr>) questions
                in case save_questions questions' st1 of
                     (_, st2) \<Rightarrow> reply_after_edit question_id (sc\<lparr>editing := None\<rparr>) st2)))"

text \<open>The store a handler leaves behind.\<close>

definition store_after :: "outcome \<times> scratch \<times> questions_store \<Rightarrow> questions_store" where
  "store_after r = snd (snd r)"

text \<open>
  The invariant of the data model: at least two options and an answer that is an index
  into them.
\<close>

definition valid_question :: "quiz_question \<Rightarrow> bool" where
  "valid_question q =
     (case options q of
        None \<Rightarrow> False
      | Some opts \<Rightarrow> 2 \<le> length opts \<and> 0 \<le> answer q \<and> answer q < int (length opts))"

definition store_valid :: "questions_store \<Rightarrow> bool" where
  "store_valid st = list_all valid_question (stored st)"

subsection \<open>User statistics (lines 326--365)\<close>

record user_stats =
  name :: string
  correct :: int
  total :: int

text \<open>\<open>data/users.json\<close>: a JSON object from the user id, as text, to the user's row.\<close>

record users_store =
  users_file :: "(string \<rightharpoonup> user_stats) disk_file"
  users_writable :: bool

definition load_users :: "users_store \<Rightarrow> (string \<rightharpoonup> user_stats)" where
  "load_users us =
     (case users_file us of
        Content user_data \<Rightarrow> user_data
      | Missing \<Rightarrow> Map.empty
      | Unreadable \<Rightarrow> Map.empty)"

definition save_user_data :: "(string \<rightharpoonup> user_stats) \<Rightarrow> users_store \<Rightarrow> bool \<times> users_store" where
  "save_user_data user_data us =
     (if users_writable us then (True, us\<lparr>users_file := Content user_data\<rparr>)
      else (False, us))"

definition update_user_stats :: "int \<Rightarrow> string \<Rightarrow> bool \<Rightarrow> users_store \<Rightarrow> bool \<times> users_store" where
  "update_user_stats user_id user_name is_correct us =
     (let user_data = load_users us;
          key = py_str user_id;
          row0 = (case user_data key of
                    None \<Rightarrow> \<lparr>name = user_name, correct = 0, total = 0\<rparr>
                  | Some row \<Rightarrow> row);
          row1 = row0\<lparr>total := total row0 + 1\<rparr>;
          row2 = (if is_correct then row1\<lparr>correct := correct row1 + 1\<rparr> else row1)
      in save_user_data (user_data(key \<mapsto> row2)) us)"

subsection \<open>A quiz round (lines 419--478)\<close>

text \<open>
  What \<open>context.bot.send_poll\<close> is called with, and the id of the message it returns.
\<close>

record sent_poll =
  poll_message_id :: int
  poll_chat_id :: int
  poll_question :: "string option"
  poll_options :: "string list option"
  correct_option_id :: int

text \<open>
  \<open>random.choice(questions)\<close> is some element of the list; \<open>rnd\<close> stands for the
  generator's draw. \<open>message_id\<close> is the id of the message \<open>send_poll\<close> returns.
\<close>

definition play :: "nat \<Rightarrow> int \<Rightarrow> int \<Rightarrow> scratch \<Rightarrow> questions_store \<Rightarrow> sent_poll option \<times> scratch \<times> questions_store" where
  "play rnd chat_id message_id sc st =
     (case load_questions st of
        (questions, st') \<Rightarrow>
          if questions = [] then (None, sc, st')
          else (let question_data = questions ! (rnd mod length questions);
                    sc1 = sc\<lparr>quiz_correct_answer := Some (answer question_data),
                             quiz_question_id := qid question_data\<rparr>;
                    poll = \<lparr>poll_message_id = message_id, poll_chat_id = chat_id,
                            poll_question = question question_data,
                            poll_options = options question_data,
                            correct_option_id = answer question_data\<rparr>
                in (Some poll, sc1\<lparr>quiz_message_id := Some message_id\<rparr>, st')))"

text \<open>
  \<open>update.poll_answer\<close>: which poll was answered (here: the id of the message that carries
  it), who answered, under which display name, and what they chose.
\<close>

record poll_answer =
  answered_poll :: int
  answer_user_id :: int
  answer_user_name :: string
  option_ids :: "int list"

text \<open>
  The handler's result is the exception it leaves with, or the feedback it sends: the
  chat it goes to and whether it says ``Correct!''. An update without a poll answer makes
  \<open>answer.user\<close> raise \<open>AttributeError\<close>.
\<close>

definition handle_poll_answer :: "poll_answer option \<Rightarrow> scratch \<Rightarrow> users_store \<Rightarrow> (py_error + int \<times> bool) \<times> users_store" where
  "handle_poll_answer update sc us =
     (case update of
        None \<Rightarrow> (Inl AttributeError, us)
      | Some a \<Rightarrow>
          (let selected_option = (case option_ids a of [] \<Rightarrow> None | i # _ \<Rightarrow> Some i);
               correct_option = quiz_correct_answer sc;
               is_correct = (selected_option = correct_option)
           in case update_user_stats (answer_user_id a) (answer_user_name a) is_correct us of
                (_, us') \<Rightarrow> (Inr (answer_user_id a, is_correct), us')))"

text \<open>The row of a user as the next operation reads it.\<close>

definition stats_of :: "users_store \<Rightarrow> int \<Rightarrow> user_stats option" where
  "stats_of us user_id = load_users us (py_str user_id)"

subsection \<open>Which scratch \<open>play\<close> gets\<close>

text \<open>
  \<open>play\<close> does not choose its scratch: it uses \<open>context.user_data\<close>, which the framework
  keeps per user and hands to the handler of a command of that user (line 1099 registers
  \<open>play\<close> for \<open>/play\<close>). The state of the rounds is the scratch of every user, the
  questions file, and the polls sent so far. \<open>handle_poll_answer\<close> is registered for poll
  updates (line 1104), not for poll answers, so no dispatch of answer events is modelled:
  the handler is the function above, applied to the update and the scratch it is called
  with.
\<close>

record bot =
  user_data :: "int \<Rightarrow> scratch"
  bot_questions :: questions_store
  bot_polls :: "sent_poll list"

definition on_play :: "int \<Rightarrow> int \<Rightarrow> nat \<Rightarrow> int \<Rightarrow> bot \<Rightarrow> bot" where
  "on_play user_id chat_id rnd message_id b =
     (case play rnd chat_id message_id (user_data b user_id) (bot_questions b) of
        (sent, sc, st) \<Rightarrow>
          b\<lparr>user_data := (user_data b)(user_id := sc), bot_questions := st,
            bot_polls := bot_polls b @ (case sent of None \<Rightarrow> [] | Some p \<Rightarrow> [p])\<rparr>)"

subsection \<open>The import adapter (lines 106--324)\<close>

text \<open>What the adapter returns on success: the dict \<open>{"question", "options", "answer"}\<close>.\<close>

record draft =
  draft_question :: string
  draft_options :: "string list"
  draft_answer :: int

text \<open>
  The adapter calls the network, the regular-expression engine, an HTML parser and a
  Telegram client. They are not part of the program, so they are parameters: each field
  says what the call returns, and \<open>Inl\<close> (or \<open>Some\<close> error) that it raises an exception of
  class \<open>Exception\<close>. The message ids are kept as the digits the pattern \<open>\d+\<close> matched.
\<close>

datatype tg_message = PollMessage string "string list" | TextMessage string | EmptyMessage

record web =
  credentials :: bool
  import_pyrogram :: "py_error option"
  channel_search :: "string \<Rightarrow> (string \<times> string) option"
  run_event_loop :: "py_error option"
  get_messages :: "string \<Rightarrow> string \<Rightarrow> py_error + tg_message option"
  requests_get :: "string \<Rightarrow> py_error + string"
  poll_question_search :: "string \<Rightarrow> string option"
  poll_options_findall :: "string \<Rightarrow> string list"
  soup_message_text :: "string \<Rightarrow> py_error + string option"
  soup_og_title :: "string \<Rightarrow> py_error + string option"
  soup_og_description :: "string \<Rightarrow> py_error + string option"
  soup_paragraphs :: "string \<Rightarrow> py_error + string list"

text \<open>\<open>needle in s\<close> and \<open>s.lower()\<close> on the code points below 256.\<close>

fun contains :: "string \<Rightarrow> string \<Rightarrow> bool" where
  "contains needle [] = (needle = [])"
| "contains needle (c # cs) = (take (length needle) (c # cs) = needle \<or> contains needle cs)"

definition lower_char :: "char \<Rightarrow> char" where
  "lower_char c =
     (let n = (of_char c :: nat)
      in if (65 \<le> n \<and> n \<le> 90) \<or> (192 \<le> n \<and> n \<le> 222 \<and> n \<noteq> 215)
         then char_of (n + 32) else c)"

definition lower :: "string \<Rightarrow> string" where
  "lower s = map lower_char s"

text \<open>
  The three substitutions \<open>re.sub(r'^[a-z][\.\)]\s*', '', line)\<close>,
  \<open>re.sub(r'^\d+[\.\)]\s*', '', line)\<close> and \<open>re.sub(r'^[A-Za-z0-9][\.\)]\s*', '', line)\<close>:
  an option marker at the start of the line is removed with the whitespace after it.
\<close>

definition is_lower_letter :: "char \<Rightarrow> bool" where
  "is_lower_letter c = (let n = (of_char c :: nat) in 97 \<le> n \<and> n \<le> 122)"

definition is_digit :: "char \<Rightarrow> bool" where
  "is_digit c = (let n = (of_char c :: nat) in 48 \<le> n \<and> n \<le> 57)"

definition is_alnum :: "char \<Rightarrow> bool" where
  "is_alnum c =
     (let n = (of_char c :: nat)
      in (65 \<le> n \<and> n \<le> 90) \<or> (97 \<le> n \<and> n \<le> 122) \<or> (48 \<le> n \<and> n \<le> 57))"

definition is_marker_end :: "char \<Rightarrow> bool" where
  "is_marker_end c = (c = CHR ''.'' \<or> c = CHR '')'')"

definition drop_char_marker :: "(char \<Rightarrow> bool) \<Rightarrow> string \<Rightarrow> string" where
  "drop_char_marker cls line =
     (case line of
        c # d # rest \<Rightarrow> if cls c \<and> is_marker_end d then dropWhile isspace rest else line
      | _ \<Rightarrow> line)"

definition drop_number_marker :: "string \<Rightarrow> string" where
  "drop_number_marker line =
     (case dropWhile is_digit line of
        d # rest \<Rightarrow>
          if takeWhile is_digit line \<noteq> [] \<and> is_marker_end d then dropWhile isspace rest
          else line
      | [] \<Rightarrow> line)"

text \<open>Method 1, lines 147--177: a fetched message read as a quiz.\<close>

definition quiz_of_message :: "tg_message \<Rightarrow> draft option" where
  "quiz_of_message m =
     (case m of
        PollMessage q opts \<Rightarrow> Some \<lparr>draft_question = q, draft_options = opts, draft_answer = 0\<rparr>
      | TextMessage text \<Rightarrow>
          (case py_split newline (strip text) of
             first_line # rest_lines \<Rightarrow>
               if length (first_line # rest_lines) \<ge> 3
               then (let opts = filter (\<lambda>line. line \<noteq> [])
                                  (map (\<lambda>line. drop_number_marker
                                                  (drop_char_marker is_lower_letter (strip line)))
                                       rest_lines)
                     in if length opts \<ge> 2
                        then Some \<lparr>draft_question = first_line, draft_options = opts,
                                   draft_answer = 0\<rparr>
                        else None)
               else None
           | [] \<Rightarrow> None)
      | EmptyMessage \<Rightarrow> None)"

text \<open>
  Method 1, the body of the \<open>try\<close> of lines 123--191. An exception inside the inner
  \<open>try\<close> around \<open>get_messages\<close> makes the coroutine return \<open>None\<close>; one raised by the
  import, the event loop or the client leaves the body.
\<close>

definition pyrogram_method :: "web \<Rightarrow> string \<Rightarrow> py_error + draft option" where
  "pyrogram_method w url =
     (case import_pyrogram w of
        Some e \<Rightarrow> Inl e
      | None \<Rightarrow>
          (case channel_search w url of
             None \<Rightarrow> Inr None
           | Some (channel_name, message_id) \<Rightarrow>
               (case run_event_loop w of
                  Some e \<Rightarrow> Inl e
                | None \<Rightarrow>
                    (case get_messages w channel_name message_id of
                       Inl e \<Rightarrow> Inr None
                     | Inr None \<Rightarrow> Inr None
                     | Inr (Some m) \<Rightarrow> Inr (quiz_of_message m)))))"

text \<open>Lines 206--215: the poll markup of the public page.\<close>

definition direct_poll :: "web \<Rightarrow> string \<Rightarrow> draft option" where
  "direct_poll w content =
     (case poll_question_search w content of
        None \<Rightarrow> None
      | Some q \<Rightarrow>
          (let poll_options = poll_options_findall w content
           in if length poll_options \<ge> 2
              then Some \<lparr>draft_question = strip q, draft_options = poll_options, draft_answer = 0\<rparr>
              else None))"

text \<open>Lines 239--261: the text of the embedded message read as a quiz.\<close>

definition quiz_of_embedded_text :: "string \<Rightarrow> draft option" where
  "quiz_of_embedded_text message_text =
     (case map strip (filter (\<lambda>line. strip line \<noteq> []) (py_split newline (strip message_text))) of
        first_line # rest_lines \<Rightarrow>
          if length (first_line # rest_lines) \<ge> 3
          then (let opts = filter (\<lambda>line. line \<noteq> []) (map (drop_char_marker is_alnum) rest_lines)
                in if length opts \<ge> 2
                   then Some \<lparr>draft_question = first_line, draft_options = opts, draft_answer = 0\<rparr>
                   else None)
          else None
      | [] \<Rightarrow> None)"

text \<open>Lines 264--279: a page whose title mentions a quiz, its paragraphs as options.\<close>

definition quiz_of_title :: "web \<Rightarrow> string \<Rightarrow> py_error + draft option" where
  "quiz_of_title w embed_content =
     (case soup_og_title w embed_content of
        Inl e \<Rightarrow> Inl e
      | Inr None \<Rightarrow> Inr None
      | Inr (Some title_content) \<Rightarrow>
          if contains ''quiz'' (lower title_content)
          then (case soup_paragraphs w embed_content of
                  Inl e \<Rightarrow> Inl e
                | Inr paragraphs \<Rightarrow>
                    (let lines = map strip paragraphs
                     in if length lines \<ge> 2
                        then Inr (Some \<lparr>draft_question = strip title_content,
                                         draft_options = lines, draft_answer = 0\<rparr>)
                        else Inr None))
          else Inr None)"

text \<open>The body of the \<open>try\<close> of lines 229--279.\<close>

definition embedded_view :: "web \<Rightarrow> string \<Rightarrow> string \<Rightarrow> py_error + draft option" where
  "embedded_view w channel_name message_id =
     (case requests_get w (''https://t.me/'' @ channel_name @ ''/'' @ message_id @ ''?embed=1'') of
        Inl e \<Rightarrow> Inl e
      | Inr embed_content \<Rightarrow>
          (case soup_message_text w embed_content of
             Inl e \<Rightarrow> Inl e
           | Inr None \<Rightarrow> quiz_of_title w embed_content
           | Inr (Some message_text) \<Rightarrow>
               (case quiz_of_embedded_text message_text of
                  Some d \<Rightarrow> Inr (Some d)
                | None \<Rightarrow> quiz_of_title w embed_content)))"

text \<open>Method 3, the body of the \<open>try\<close> of lines 285--310.\<close>

definition meta_tags :: "web \<Rightarrow> string \<Rightarrow> py_error + draft option" where
  "meta_tags w content =
     (case soup_og_title w content of
        Inl e \<Rightarrow> Inl e
      | Inr title_tag \<Rightarrow>
          (case soup_og_description w content of
             Inl e \<Rightarrow> Inl e
           | Inr desc_tag \<Rightarrow>
               (case (map_option strip title_tag, map_option strip desc_tag) of
                  (Some title, Some description) \<Rightarrow>
                    if title \<noteq> [] \<and> description \<noteq> [] \<and> contains ''quiz'' (lower title)
                    then (let opts = map strip (filter (\<lambda>opt. strip opt \<noteq> [])
                                                       (py_split (CHR '','') description))
                          in if length opts \<ge> 2
                             then Inr (Some \<lparr>draft_question = title, draft_options = opts,
                                              draft_answer = 0\<rparr>)
                             else Inr None)
                    else Inr None
                | _ \<Rightarrow> Inr None)))"

text \<open>
  Method 2 and 3, the body of the \<open>try\<close> of lines 201--312. The two inner \<open>try\<close> blocks
  log their exception and go on.
\<close>

definition scrape :: "web \<Rightarrow> string \<Rightarrow> py_error + draft option" where
  "scrape w url =
     (case requests_get w url of
        Inl e \<Rightarrow> Inl e
      | Inr content \<Rightarrow>
          (case direct_poll w content of
             Some d \<Rightarrow> Inr (Some d)
           | None \<Rightarrow>
               (let embedded =
                      (if contains ''rajsthangk'' url \<or> contains ''gk'' (lower url)
                          \<or> contains ''quiz'' (lower url)
                       then (case channel_search w url of
                               None \<Rightarrow> None
                             | Some (channel_name, message_id) \<Rightarrow>
                                 (case embedded_view w channel_name message_id of
                                    Inl e \<Rightarrow> None
                                  | Inr r \<Rightarrow> r))
                       else None)
                in case embedded of
                     Some d \<Rightarrow> Inr (Some d)
                   | None \<Rightarrow>
                       (case meta_tags w content of
                          Inl e \<Rightarrow> Inr None
                        | Inr r \<Rightarrow> Inr r))))"

text \<open>
  The whole function. \<open>Inl\<close> would be an exception that leaves it; every \<open>try\<close> of the
  source catches \<open>Exception\<close>, the outermost one around the whole body.
\<close>

definition parse_telegram_quiz_url_body :: "web \<Rightarrow> string \<Rightarrow> py_error + draft option" where
  "parse_telegram_quiz_url_body w url =
     (if url = [] \<or> \<not> contains ''t.me'' url then Inr None
      else (let first =
                  (if credentials w
                   then (case pyrogram_method w url of Inl e \<Rightarrow> None | Inr r \<Rightarrow> r)
                   else None)
            in case first of
                 Some d \<Rightarrow> Inr (Some d)
               | None \<Rightarrow>
                   (case scrape w url of
                      Inl e \<Rightarrow> Inr None
                    | Inr r \<Rightarrow> Inr r)))"

definition parse_telegram_quiz_url :: "web \<Rightarrow> string \<Rightarrow> py_error + draft option" where
  "parse_telegram_quiz_url w url =
     (case parse_telegram_quiz_url_body w url of
        Inl e \<Rightarrow> Inr None
      | Inr r \<Rightarrow> Inr r)"

subsection \<open>Example data\<close>

text \<open>A well-formed record with a given id, for the closed instances below.\<close>

definition question_with_id :: "int \<Rightarrow> quiz_question" where
  "question_with_id i =
     \<lparr>qid = Some i, question = Some ''Q'', options = Some [''A'', ''B''], answer = 0,
      category = Some ''General''\<rparr>"

definition store_of :: "quiz_question list \<Rightarrow> questions_store" where
  "store_of qs = \<lparr>questions_file = Content qs, questions_writable = True\<rparr>"

definition users_of :: "(string \<rightharpoonup> user_stats) \<Rightarrow> users_store" where
  "users_of rows = \<lparr>users_file = Content rows, users_writable = True\<rparr>"

text \<open>A bot in which nobody has played yet, over the two seeded questions.\<close>

definition fresh_bot :: bot where
  "fresh_bot =
     \<lparr>user_data = (\<lambda>_. cleared), bot_questions = store_of sample_questions,
      bot_polls = []\<rparr>"

text \<open>
  Two environments of the adapter: one in which every call to the outside raises, and one
  whose page carries the markup of a poll.
\<close>

definition offline_web :: web where
  "offline_web =
     \<lparr>credentials = True, import_pyrogram = Some RuntimeError,
      channel_search = (\<lambda>_. None), run_event_loop = Some RuntimeError,
      get_messages = (\<lambda>_ _. Inl RuntimeError), requests_get = (\<lambda>_. Inl RuntimeError),
      poll_question_search = (\<lambda>_. None), poll_options_findall = (\<lambda>_. []),
      soup_message_text = (\<lambda>_. Inl RuntimeError), soup_og_title = (\<lambda>_. Inl RuntimeError),
      soup_og_description = (\<lambda>_. Inl RuntimeError), soup_paragraphs = (\<lambda>_. Inl RuntimeError)\<rparr>"

definition poll_page_web :: web where
  "poll_page_web =
     offline_web\<lparr>credentials := False, requests_get := (\<lambda>_. Inr ''<html>''),
                 poll_question_search := (\<lambda>_. Some '' Capital of France? ''),
                 poll_options_findall := (\<lambda>_. [''Paris'', ''Rome''])\<rparr>"

section \<open>Properties\<close>

subsection \<open>Lines\<close>

lemma py_split_nonempty: "py_split sep t \<noteq> []"
  by (induction t) (auto split: list.splits)

lemma py_split_no_sep: "l \<in> set (py_split sep t) \<Longrightarrow> sep \<notin> set l"
  by (induction t arbitrary: l) (auto split: list.splits if_splits)

lemma py_split_join: "concat (map (\<lambda>l. l @ [sep]) (py_split sep t)) = t @ [sep]"
  by (induction t) (auto split: list.splits)

lemma split_options_filter_map:
  "split_options t = filter (\<lambda>l. l \<noteq> []) (map strip (py_split newline t))"
  by (simp add: split_options_def filter_map comp_def)

text \<open>
  C6. The options of a message are its lines (the pieces between line feeds, which joined
  by line feeds give the message back), each trimmed, without the blank ones and in the
  order of the message; \<open>Paris\<close>, \<open>London\<close>, an empty line and \<open>Berlin\<close> give exactly
  the three names.
\<close>

theorem split_options_lines:
  "split_options t = filter (\<lambda>l. l \<noteq> []) (map strip (py_split newline t))
   \<and> concat (map (\<lambda>l. l @ [newline]) (py_split newline t)) = t @ [newline]
   \<and> (\<forall>l \<in> set (py_split newline t). newline \<notin> set l)
   \<and> split_options (''Paris'' @ [newline] @ ''London'' @ [newline, newline] @ ''Berlin'')
       = [''Paris'', ''London'', ''Berlin'']"
proof (intro conjI)
  show "split_options t = filter (\<lambda>l. l \<noteq> []) (map strip (py_split newline t))"
    by (rule split_options_filter_map)
  show "concat (map (\<lambda>l. l @ [newline]) (py_split newline t)) = t @ [newline]"
    by (rule py_split_join)
  show "\<forall>l \<in> set (py_split newline t). newline \<notin> set l"
    using py_split_no_sep by blast
  show "split_options (''Paris'' @ [newline] @ ''London'' @ [newline, newline] @ ''Berlin'')
          = [''Paris'', ''London'', ''Berlin'']"
    by (simp add: split_options_def strip_def isspace_def newline_def)
qed

theorem split_options_lines_witness:
  "split_options (''  a '' @ [newline] @ '' '' @ [newline] @ ''b'') = [''a'', ''b'']
   \<and> py_split newline (''  a '' @ [newline] @ '' '' @ [newline] @ ''b'') = [''  a '', '' '', ''b'']"
  using split_options_lines [of "''  a '' @ [newline] @ '' '' @ [newline] @ ''b''"]
  by (simp add: strip_def isspace_def newline_def)

subsection \<open>The question store\<close>

lemma stored_Content: "questions_file st = Content qs \<Longrightarrow> stored st = qs"
  by (simp add: stored_def load_questions_def)

lemma stored_Unreadable: "questions_file st = Unreadable \<Longrightarrow> stored st = []"
  by (simp add: stored_def load_questions_def)

lemma stored_Missing: "questions_file st = Missing \<Longrightarrow> stored st = sample_questions"
  by (simp add: stored_def load_questions_def)

lemma stored_after_load: "stored (snd (load_questions st)) = stored st"
  by (cases "questions_file st")
     (auto simp: stored_def load_questions_def save_questions_def)

lemma load_questions_stored: "load_questions st = (stored st, snd (load_questions st))"
  by (simp add: stored_def)

lemma stored_after_save:
  "questions_writable st \<Longrightarrow> stored (snd (save_questions qs st)) = qs"
  by (simp add: stored_def load_questions_def save_questions_def)

lemma writable_after_load: "questions_writable (snd (load_questions st)) = questions_writable st"
  by (cases "questions_file st") (auto simp: load_questions_def save_questions_def)


lemma get_next_question_id_stored:
  "fst (get_next_question_id st) =
     (case map get_id_or_0 (stored st) of [] \<Rightarrow> 1 | i # ids \<Rightarrow> fold max ids i + 1)"
  by (simp add: get_next_question_id_def stored_def split: prod.splits list.splits)

lemma get_next_question_id_Max:
  "fst (get_next_question_id st) =
     (if stored st = [] then 1 else Max (get_id_or_0 ` set (stored st)) + 1)"
proof (cases "stored st")
  case Nil
  then show ?thesis by (simp add: get_next_question_id_stored)
next
  case (Cons q qs)
  have "fold max (map get_id_or_0 qs) (get_id_or_0 q) = Max (set (get_id_or_0 q # map get_id_or_0 qs))"
    by (rule Max.set_eq_fold [symmetric])
  with Cons show ?thesis by (simp add: get_next_question_id_stored)
qed

lemma get_next_question_id_fresh:
  assumes "q \<in> set (stored st)"
  shows "get_id_or_0 q < fst (get_next_question_id st)"
proof -
  from assms have ne: "stored st \<noteq> []" by auto
  have "get_id_or_0 q \<le> Max (get_id_or_0 ` set (stored st))"
    using assms by (intro Max_ge) auto
  with ne show ?thesis by (simp add: get_next_question_id_Max)
qed

lemma stored_after_delete:
  "questions_writable st \<Longrightarrow>
   stored (snd (delete_question_by_id i st)) = filter (\<lambda>q. qid q \<noteq> Some i) (stored st)"
proof -
  assume w: "questions_writable st"
  obtain qs st' where l: "load_questions st = (qs, st')" by (cases "load_questions st")
  then have qs: "stored st = qs" and st': "st' = snd (load_questions st)" by (simp_all add: stored_def)
  have w': "questions_writable st'" using w st' by (simp add: writable_after_load)
  have s': "stored st' = qs" using st' qs by (simp add: stored_after_load)
  show ?thesis
  proof (cases "length (filter (\<lambda>q. qid q \<noteq> Some i) qs) < length qs")
    case True
    then show ?thesis using l w' qs
      by (simp add: delete_question_by_id_def Let_def stored_after_save)
  next
    case False
    then have "length (filter (\<lambda>q. qid q \<noteq> Some i) qs) = length qs"
      using length_filter_le [of "\<lambda>q. qid q \<noteq> Some i" qs] by linarith
    then have "filter (\<lambda>q. qid q \<noteq> Some i) qs = qs"
      by (metis filter_True length_filter_less linorder_neq_iff)
    with False show ?thesis using l s' qs
      by (simp add: delete_question_by_id_def Let_def)
  qed
qed

lemma stored_store_of: "stored (store_of qs) = qs"
  by (simp add: store_of_def stored_Content)

lemma writable_store_of: "questions_writable (store_of qs)"
  by (simp add: store_of_def)

text \<open>
  C2, as the code has it. The next id is 1 for an empty collection and otherwise one more
  than the largest id in it (a record without id counting as 0), computed from what the
  file holds at the time of the call, so it is larger than every id present. With the ids
  1, 2, 5 it is 6; once the record with id 5 is deleted it is 3: the id of a deleted record
  is handed out again when no larger id is left.
\<close>

theorem get_next_question_id_from_contents:
  "fst (get_next_question_id st) =
     (if stored st = [] then 1 else Max (get_id_or_0 ` set (stored st)) + 1)
   \<and> (\<forall>q \<in> set (stored st). get_id_or_0 q < fst (get_next_question_id st))
   \<and> (questions_writable st \<and> map qid (stored st) = [Some 1, Some 2, Some 5] \<longrightarrow>
        fst (get_next_question_id st) = 6
        \<and> fst (get_next_question_id (snd (delete_question_by_id 5 st))) = 3)"
proof (intro conjI impI ballI)
  show "fst (get_next_question_id st) =
     (if stored st = [] then 1 else Max (get_id_or_0 ` set (stored st)) + 1)"
    by (rule get_next_question_id_Max)
next
  fix q assume "q \<in> set (stored st)"
  then show "get_id_or_0 q < fst (get_next_question_id st)"
    by (rule get_next_question_id_fresh)
next
  assume a: "questions_writable st \<and> map qid (stored st) = [Some 1, Some 2, Some 5]"
  then obtain q1 q2 q5 where qs: "stored st = [q1, q2, q5]"
    and ids: "qid q1 = Some 1" "qid q2 = Some 2" "qid q5 = Some 5"
    by (auto simp: map_eq_Cons_conv)
  show "fst (get_next_question_id st) = 6"
    using qs ids by (simp add: get_next_question_id_stored get_id_or_0_def)
  have "stored (snd (delete_question_by_id 5 st)) = [q1, q2]"
    using a qs ids by (simp add: stored_after_delete)
  then show "fst (get_next_question_id (snd (delete_question_by_id 5 st))) = 3"
    using ids by (simp add: get_next_question_id_stored get_id_or_0_def)
qed

theorem get_next_question_id_from_contents_witness:
  "fst (get_next_question_id (store_of [question_with_id 1, question_with_id 2, question_with_id 5])) = 6
   \<and> fst (get_next_question_id (snd (delete_question_by_id 5
         (store_of [question_with_id 1, question_with_id 2, question_with_id 5])))) = 3"
  using get_next_question_id_from_contents
          [of "store_of [question_with_id 1, question_with_id 2, question_with_id 5]"]
  by (simp add: stored_store_of writable_store_of question_with_id_def)

theorem deleted_id_reused_counterexample:
  "fst (get_next_question_id (store_of [question_with_id 1, question_with_id 2, question_with_id 5])) = 6
   \<and> fst (get_next_question_id (snd (delete_question_by_id 5
         (store_of [question_with_id 1, question_with_id 2, question_with_id 5])))) \<noteq> 6"
  by (simp add: get_next_question_id_stored stored_after_delete stored_store_of
        writable_store_of question_with_id_def get_id_or_0_def)

lemma find_None_filter: "find P (filter (\<lambda>x. \<not> P x) xs) = None"
  by (induction xs) auto

lemma length_filter_distinct_id:
  assumes "distinct (map qid qs)" and "Some i \<in> set (map qid qs)"
  shows "length (filter (\<lambda>q. qid q \<noteq> Some i) qs) + 1 = length qs"
  using assms
proof (induction qs)
  case Nil
  then show ?case by simp
next
  case (Cons q qs)
  show ?case
  proof (cases "qid q = Some i")
    case True
    with Cons.prems have "\<forall>x \<in> set qs. qid x \<noteq> Some i" by force
    then have "filter (\<lambda>q. qid q \<noteq> Some i) qs = qs"
      by (simp add: filter_id_conv)
    with True show ?thesis by simp
  next
    case False
    with Cons show ?thesis by auto
  qed
qed

lemma delete_absent:
  assumes "Some i \<notin> set (map qid (stored st))"
  shows "fst (delete_question_by_id i st) = False"
    and "stored (snd (delete_question_by_id i st)) = stored st"
    and "questions_file st \<noteq> Missing \<Longrightarrow> snd (delete_question_by_id i st) = st"
proof -
  from assms have "\<forall>x \<in> set (stored st). qid x \<noteq> Some i" by force
  then have f: "filter (\<lambda>q. qid q \<noteq> Some i) (stored st) = stored st"
    by (simp add: filter_id_conv)
  have d: "delete_question_by_id i st = (False, snd (load_questions st))"
    using f by (cases "load_questions st") (simp add: delete_question_by_id_def stored_def Let_def)
  show "fst (delete_question_by_id i st) = False" by (simp add: d)
  show "stored (snd (delete_question_by_id i st)) = stored st"
    by (simp add: d stored_after_load)
  show "questions_file st \<noteq> Missing \<Longrightarrow> snd (delete_question_by_id i st) = st"
    by (cases "questions_file st") (simp_all add: d load_questions_def)
qed

lemma delete_present:
  assumes "Some i \<in> set (map qid (stored st))"
  shows "fst (delete_question_by_id i st) = True"
proof -
  from assms obtain q where "q \<in> set (stored st)" and "qid q = Some i" by auto
  then have "length (filter (\<lambda>q. qid q \<noteq> Some i) (stored st)) < length (stored st)"
    by (intro length_filter_less [where x = q]) simp_all
  then show ?thesis
    by (cases "load_questions st") (simp add: delete_question_by_id_def stored_def Let_def)
qed

lemma get_question_by_id_stored:
  "fst (get_question_by_id i st) = find (\<lambda>q. qid q = Some i) (stored st)"
  by (simp add: get_question_by_id_def stored_def split: prod.splits)

text \<open>
  C4. Deleting an id that no record carries returns \<open>False\<close> and leaves the collection
  (and an existing file) as it was. Deleting the id of a record returns \<open>True\<close>; when the
  write succeeds, \<open>get_question_by_id\<close> no longer finds the id and, ids being unique as
  the data model has them, the collection is exactly one record shorter.
\<close>

theorem delete_question_by_id_contract:
  "(Some i \<notin> set (map qid (stored st)) \<longrightarrow>
       fst (delete_question_by_id i st) = False
     \<and> stored (snd (delete_question_by_id i st)) = stored st
     \<and> (questions_file st \<noteq> Missing \<longrightarrow> snd (delete_question_by_id i st) = st))
   \<and> (Some i \<in> set (map qid (stored st)) \<longrightarrow>
       fst (delete_question_by_id i st) = True
     \<and> (questions_writable st \<longrightarrow>
          fst (get_question_by_id i (snd (delete_question_by_id i st))) = None
        \<and> (distinct (map qid (stored st)) \<longrightarrow>
             length (stored (snd (delete_question_by_id i st))) + 1 = length (stored st))))"
proof (intro conjI impI)
  assume a: "Some i \<notin> set (map qid (stored st))"
  show "fst (delete_question_by_id i st) = False" using a by (rule delete_absent)
  show "stored (snd (delete_question_by_id i st)) = stored st" using a by (rule delete_absent)
  show "questions_file st \<noteq> Missing \<Longrightarrow> snd (delete_question_by_id i st) = st"
    using a by (rule delete_absent)
next
  assume a: "Some i \<in> set (map qid (stored st))"
  show "fst (delete_question_by_id i st) = True" using a by (rule delete_present)
  assume w: "questions_writable st"
  then have s: "stored (snd (delete_question_by_id i st)) = filter (\<lambda>q. qid q \<noteq> Some i) (stored st)"
    by (simp add: stored_after_delete)
  show "fst (get_question_by_id i (snd (delete_question_by_id i st))) = None"
    using find_None_filter [of "\<lambda>q. qid q = Some i" "stored st"]
    by (simp add: get_question_by_id_stored s)
  assume d: "distinct (map qid (stored st))"
  show "length (stored (snd (delete_question_by_id i st))) + 1 = length (stored st)"
    using length_filter_distinct_id [of "stored st" i] a d by (simp only: s)
qed

theorem delete_question_by_id_contract_witness:
  "fst (delete_question_by_id 7 (store_of sample_questions)) = False
   \<and> stored (snd (delete_question_by_id 7 (store_of sample_questions))) = sample_questions
   \<and> fst (delete_question_by_id 2 (store_of sample_questions)) = True
   \<and> length (stored (snd (delete_question_by_id 2 (store_of sample_questions)))) + 1 = 2
   \<and> fst (get_question_by_id 2 (snd (delete_question_by_id 2 (store_of sample_questions)))) = None"
  using delete_question_by_id_contract [of 7 "store_of sample_questions"]
        delete_question_by_id_contract [of 2 "store_of sample_questions"]
  by (simp add: stored_store_of writable_store_of sample_questions_def)

subsection \<open>What the handlers leave in the store\<close>

lemma load_questions_twice:
  "load_questions (snd (load_questions st)) = (stored st, snd (load_questions st))"
  by (cases "questions_file st"; cases "questions_writable st")
     (simp_all add: load_questions_def save_questions_def stored_def)

lemma get_next_question_id_state: "snd (get_next_question_id st) = snd (load_questions st)"
  by (cases "load_questions st") (simp add: get_next_question_id_def split: list.splits)

lemma get_question_by_id_state: "snd (get_question_by_id i st) = snd (load_questions st)"
  by (cases "load_questions st") (simp add: get_question_by_id_def)

lemma stored_after_save_any:
  "stored (snd (save_questions qs st)) = (if questions_writable st then qs else stored st)"
  by (cases "questions_file st")
     (simp_all add: stored_def load_questions_def save_questions_def)

text \<open>The record \<open>get_answer\<close> appends.\<close>

lemma get_answer_store:
  "store_after (get_answer (Some idx) sc st) =
     snd (save_questions
            (stored st @ [\<lparr>qid = Some (fst (get_next_question_id st)), question = quiz_question sc,
                           options = quiz_options sc, answer = idx,
                           category = Some ''User Created''\<rparr>])
            (snd (load_questions st)))"
proof -
  obtain n st1 where g: "get_next_question_id st = (n, st1)" by (cases "get_next_question_id st")
  then have st1: "st1 = snd (load_questions st)" and n: "n = fst (get_next_question_id st)"
    using get_next_question_id_state [of st] by simp_all
  have l: "load_questions st1 = (stored st, st1)"
    unfolding st1 by (rule load_questions_twice)
  show ?thesis
    unfolding get_answer_def store_after_def
    by (simp add: g l Let_def st1 [symmetric] n [symmetric] split: prod.splits option.splits)
qed

lemma handle_poll_to_quiz_store:
  "poll_to_quiz sc = Some (q, opts) \<Longrightarrow>
   store_after (handle_poll_to_quiz (Some idx) sc st) =
     snd (save_questions
            (stored st @ [\<lparr>qid = Some (fst (get_next_question_id st)), question = Some q,
                           options = Some opts, answer = idx,
                           category = Some ''Converted Poll''\<rparr>])
            (snd (load_questions st)))"
proof -
  assume p: "poll_to_quiz sc = Some (q, opts)"
  obtain n st1 where g: "get_next_question_id st = (n, st1)" by (cases "get_next_question_id st")
  then have st1: "st1 = snd (load_questions st)" and n: "n = fst (get_next_question_id st)"
    using get_next_question_id_state [of st] by simp_all
  have l: "load_questions st1 = (stored st, st1)"
    unfolding st1 by (rule load_questions_twice)
  show ?thesis
    unfolding handle_poll_to_quiz_def store_after_def
    by (simp add: p g l Let_def st1 [symmetric] n [symmetric] split: prod.splits)
qed

lemma handle_poll_to_quiz_no_draft:
  "poll_to_quiz sc = None \<Longrightarrow> store_after (handle_poll_to_quiz payload sc st) = st"
  by (simp add: handle_poll_to_quiz_def store_after_def split: option.splits)

lemma reply_after_edit_store:
  "store_after (reply_after_edit i sc st) = snd (load_questions st)"
  using get_question_by_id_state [of i st]
  by (cases "get_question_by_id i st")
     (auto simp: reply_after_edit_def store_after_def split: option.splits)

lemma stored_after_reply: "stored (store_after (reply_after_edit i sc st)) = stored st"
  by (simp add: reply_after_edit_store stored_after_load)

lemma handle_edit_answer_stored:
  "stored (store_after (handle_edit_answer (Selection i a) sc st)) =
     (if questions_writable st
      then update_first (\<lambda>q. qid q = Some i) (\<lambda>q. q\<lparr>answer := a\<rparr>) (stored st)
      else stored st)"
proof -
  obtain qs st1 where l: "load_questions st = (qs, st1)" by (cases "load_questions st")
  then have qs: "qs = stored st" and st1: "st1 = snd (load_questions st)"
    by (simp_all add: stored_def)
  have "stored (store_after (handle_edit_answer (Selection i a) sc st)) =
        stored (snd (save_questions (update_first (\<lambda>q. qid q = Some i) (\<lambda>q. q\<lparr>answer := a\<rparr>) qs) st1))"
    by (cases "save_questions (update_first (\<lambda>q. qid q = Some i) (\<lambda>q. q\<lparr>answer := a\<rparr>) qs) st1")
       (simp add: handle_edit_answer_def l Let_def stored_after_reply)
  then show ?thesis
    by (simp add: stored_after_save_any st1 writable_after_load stored_after_load qs)
qed

lemma handle_edit_options_stored:
  assumes "editing sc = Some (i, act)" and "fst (get_question_by_id i st) = Some found"
    and "2 \<le> length (split_options t)"
  shows "stored (store_after (handle_edit_options t sc st)) =
     (if questions_writable st
      then update_first (\<lambda>q. qid q = Some i)
             (\<lambda>q. if answer found \<ge> int (length (split_options t))
                  then q\<lparr>options := Some (split_options t), answer := 0\<rparr>
                  else q\<lparr>options := Some (split_options t)\<rparr>) (stored st)
      else stored st)"
proof -
  let ?f = "\<lambda>q. if answer found \<ge> int (length (split_options t))
                  then q\<lparr>options := Some (split_options t), answer := 0\<rparr>
                  else q\<lparr>options := Some (split_options t)\<rparr>"
  let ?st1 = "snd (load_questions st)"
  have g: "get_question_by_id i st = (Some found, ?st1)"
    using assms(2) get_question_by_id_state [of i st] by (cases "get_question_by_id i st") simp
  have l: "load_questions ?st1 = (stored st, ?st1)" by (rule load_questions_twice)
  have "stored (store_after (handle_edit_options t sc st)) =
        stored (snd (save_questions (update_first (\<lambda>q. qid q = Some i) ?f (stored st)) ?st1))"
    using assms(1,3)
    by (cases "save_questions (update_first (\<lambda>q. qid q = Some i) ?f (stored st)) ?st1")
       (simp add: handle_edit_options_def g l Let_def stored_after_reply)
  then show ?thesis
    by (simp add: stored_after_save_any writable_after_load stored_after_load)
qed

lemma handle_edit_options_untouched:
  assumes "length (split_options t) < 2 \<or> editing sc = None
           \<or> (\<exists>i act. editing sc = Some (i, act) \<and> fst (get_question_by_id i st) = None)"
  shows "stored (store_after (handle_edit_options t sc st)) = stored st"
proof -
  consider (short) "length (split_options t) < 2"
    | (nosession) "\<not> length (split_options t) < 2" "editing sc = None"
    | (notfound) i act where "\<not> length (split_options t) < 2" "editing sc = Some (i, act)"
        "fst (get_question_by_id i st) = None"
    using assms by (cases "editing sc") auto
  then show ?thesis
  proof cases
    case short
    then show ?thesis by (simp add: handle_edit_options_def store_after_def Let_def)
  next
    case nosession
    then show ?thesis by (simp add: handle_edit_options_def store_after_def Let_def)
  next
    case notfound
    then have "get_question_by_id i st = (None, snd (load_questions st))"
      using get_question_by_id_state [of i st] by (cases "get_question_by_id i st") simp
    with notfound show ?thesis
      by (simp add: handle_edit_options_def store_after_def Let_def stored_after_load)
  qed
qed

subsection \<open>The invariant of the store\<close>

lemma update_first_no_match: "find P qs = None \<Longrightarrow> update_first P f qs = qs"
  by (induction qs) (auto split: if_splits)

lemma list_all_update_first:
  "find P qs = Some q \<Longrightarrow> list_all V qs \<Longrightarrow> V (f q) \<Longrightarrow> list_all V (update_first P f qs)"
  by (induction qs) (auto split: if_splits)


lemma find_in_list_all: "find P qs = Some q \<Longrightarrow> list_all V qs \<Longrightarrow> V q"
  by (induction qs) (auto split: if_splits)

lemma store_valid_append:
  assumes "store_valid st" and "valid_question q"
  shows "store_valid (snd (save_questions (stored st @ [q]) (snd (load_questions st))))"
  using assms
  by (simp add: store_valid_def stored_after_save_any writable_after_load stored_after_load)

lemma store_valid_edit_answer:
  assumes v: "store_valid st"
    and r: "\<forall>q opts. fst (get_question_by_id i st) = Some q \<and> options q = Some opts
                \<longrightarrow> 0 \<le> a \<and> a < int (length opts)"
  shows "store_valid (store_after (handle_edit_answer (Selection i a) sc st))"
proof (cases "find (\<lambda>q. qid q = Some i) (stored st)")
  case None
  then show ?thesis using v
    by (simp add: store_valid_def handle_edit_answer_stored update_first_no_match)
next
  case (Some q)
  have vq: "valid_question q" using Some v by (auto simp: store_valid_def dest: find_in_list_all)
  then obtain opts where o: "options q = Some opts" and l: "2 \<le> length opts"
    by (auto simp: valid_question_def split: option.splits)
  have "0 \<le> a \<and> a < int (length opts)"
    using r Some o by (simp add: get_question_by_id_stored)
  then have "valid_question (q\<lparr>answer := a\<rparr>)" using o l by (simp add: valid_question_def)
  then have "list_all valid_question
               (update_first (\<lambda>q. qid q = Some i) (\<lambda>q. q\<lparr>answer := a\<rparr>) (stored st))"
    using Some v by (auto simp: store_valid_def intro: list_all_update_first)
  then show ?thesis using v by (simp add: store_valid_def handle_edit_answer_stored)
qed

lemma store_valid_edit_options:
  assumes v: "store_valid st"
  shows "store_valid (store_after (handle_edit_options t sc st))"
proof (cases "length (split_options t) < 2 \<or> editing sc = None
           \<or> (\<exists>i act. editing sc = Some (i, act) \<and> fst (get_question_by_id i st) = None)")
  case True
  then have "stored (store_after (handle_edit_options t sc st)) = stored st"
    by (rule handle_edit_options_untouched)
  then show ?thesis using v by (simp add: store_valid_def)
next
  case False
  then obtain i act found where e: "editing sc = Some (i, act)"
    and g: "fst (get_question_by_id i st) = Some found" and n: "2 \<le> length (split_options t)"
    by (cases "editing sc") (auto simp: not_less)
  let ?f = "\<lambda>q. if answer found \<ge> int (length (split_options t))
                  then q\<lparr>options := Some (split_options t), answer := 0\<rparr>
                  else q\<lparr>options := Some (split_options t)\<rparr>"
  have f: "find (\<lambda>q. qid q = Some i) (stored st) = Some found"
    using g by (simp add: get_question_by_id_stored)
  have vq: "valid_question found" using f v by (auto simp: store_valid_def dest: find_in_list_all)
  have "valid_question (?f found)"
    using vq n by (auto simp: valid_question_def split: option.splits)
  then have "list_all valid_question (update_first (\<lambda>q. qid q = Some i) ?f (stored st))"
    using f v by (auto simp: store_valid_def intro: list_all_update_first)
  then show ?thesis
    using v handle_edit_options_stored [OF e g n] by (simp add: store_valid_def)
qed

text \<open>
  C1, as the code has it. Starting from a store in which every record has at least two
  options and an answer that indexes them, the store is again such after each mutation:
  after \<open>get_answer\<close> and after the poll conversion when the draft has at least two options
  and the selected index is one of them; after \<open>handle_edit_options\<close> always (fewer than
  two lines are refused, an answer at or beyond the new length becomes 0); after
  \<open>handle_edit_answer\<close> when the selected index is one of the target's options. A payload
  that does not decode changes nothing. The handlers themselves do not check the index.
\<close>

theorem mutation_paths_keep_store_valid:
  "store_valid st \<Longrightarrow>
     ((\<exists>opts. quiz_options sc = Some opts \<and> 2 \<le> length opts \<and> 0 \<le> idx \<and> idx < int (length opts))
        \<longrightarrow> store_valid (store_after (get_answer (Some idx) sc st)))
   \<and> ((\<exists>q opts. poll_to_quiz sc = Some (q, opts) \<and> 2 \<le> length opts \<and> 0 \<le> idx
                \<and> idx < int (length opts))
        \<longrightarrow> store_valid (store_after (handle_poll_to_quiz (Some idx) sc st)))
   \<and> store_valid (store_after (handle_edit_options t sc st))
   \<and> ((\<forall>q opts. fst (get_question_by_id i st) = Some q \<and> options q = Some opts
                \<longrightarrow> 0 \<le> a \<and> a < int (length opts))
        \<longrightarrow> store_valid (store_after (handle_edit_answer (Selection i a) sc st)))
   \<and> store_valid (store_after (get_answer None sc st))
   \<and> store_valid (store_after (handle_poll_to_quiz None sc st))
   \<and> store_valid (store_after (handle_edit_answer Malformed sc st))"
proof (intro conjI impI)
  assume v: "store_valid st"
  {
    assume "\<exists>opts. quiz_options sc = Some opts \<and> 2 \<le> length opts \<and> 0 \<le> idx \<and> idx < int (length opts)"
    then have "valid_question \<lparr>qid = Some (fst (get_next_question_id st)), question = quiz_question sc,
                           options = quiz_options sc, answer = idx,
                           category = Some ''User Created''\<rparr>"
      by (auto simp: valid_question_def)
    then show "store_valid (store_after (get_answer (Some idx) sc st))"
      using v by (simp only: get_answer_store store_valid_append)
  }
  {
    assume "\<exists>q opts. poll_to_quiz sc = Some (q, opts) \<and> 2 \<le> length opts \<and> 0 \<le> idx
                \<and> idx < int (length opts)"
    then obtain q opts where p: "poll_to_quiz sc = Some (q, opts)"
      and r: "2 \<le> length opts" "0 \<le> idx" "idx < int (length opts)" by blast
    then have "valid_question \<lparr>qid = Some (fst (get_next_question_id st)), question = Some q,
                           options = Some opts, answer = idx,
                           category = Some ''Converted Poll''\<rparr>"
      by (simp add: valid_question_def)
    then show "store_valid (store_after (handle_poll_to_quiz (Some idx) sc st))"
      using v by (simp only: handle_poll_to_quiz_store [OF p] store_valid_append)
  }
  show "store_valid (store_after (handle_edit_options t sc st))"
    using v by (rule store_valid_edit_options)
  {
    assume "\<forall>q opts. fst (get_question_by_id i st) = Some q \<and> options q = Some opts
                \<longrightarrow> 0 \<le> a \<and> a < int (length opts)"
    with v show "store_valid (store_after (handle_edit_answer (Selection i a) sc st))"
      by (rule store_valid_edit_answer)
  }
  show "store_valid (store_after (get_answer None sc st))"
    using v by (simp add: get_answer_def store_after_def)
  show "store_valid (store_after (handle_poll_to_quiz None sc st))"
    using v by (simp add: handle_poll_to_quiz_def store_after_def)
  show "store_valid (store_after (handle_edit_answer Malformed sc st))"
    using v by (simp add: handle_edit_answer_def store_after_def)
qed

lemma store_valid_samples: "store_valid (store_of sample_questions)"
  by (simp add: store_valid_def stored_store_of sample_questions_def valid_question_def)

theorem mutation_paths_keep_store_valid_witness:
  "store_valid (store_after (get_answer (Some 1)
       (cleared\<lparr>quiz_options := Some [''3'', ''4'', ''5''],
                 poll_to_quiz := Some (''Tea?'', [''yes'', ''no'']),
                 editing := Some (1, ''options'')\<rparr>) (store_of sample_questions)))
   \<and> store_valid (store_after (handle_poll_to_quiz (Some 1)
       (cleared\<lparr>quiz_options := Some [''3'', ''4'', ''5''],
                 poll_to_quiz := Some (''Tea?'', [''yes'', ''no'']),
                 editing := Some (1, ''options'')\<rparr>) (store_of sample_questions)))
   \<and> store_valid (store_after (handle_edit_options (''x'' @ [newline] @ ''y'')
       (cleared\<lparr>quiz_options := Some [''3'', ''4'', ''5''],
                 poll_to_quiz := Some (''Tea?'', [''yes'', ''no'']),
                 editing := Some (1, ''options'')\<rparr>) (store_of sample_questions)))
   \<and> store_valid (store_after (handle_edit_answer (Selection 2 3)
       (cleared\<lparr>quiz_options := Some [''3'', ''4'', ''5''],
                 poll_to_quiz := Some (''Tea?'', [''yes'', ''no'']),
                 editing := Some (1, ''options'')\<rparr>) (store_of sample_questions)))"
proof -
  let ?sc = "cleared\<lparr>quiz_options := Some [''3'', ''4'', ''5''],
                 poll_to_quiz := Some (''Tea?'', [''yes'', ''no'']),
                 editing := Some (1, ''options'')\<rparr>"
  note t = mutation_paths_keep_store_valid
             [OF store_valid_samples, of ?sc 1 "''x'' @ [newline] @ ''y''" 2 3]
  have h1: "\<exists>opts. quiz_options ?sc = Some opts \<and> 2 \<le> length opts \<and> (0::int) \<le> 1
               \<and> 1 < int (length opts)"
    by (simp add: cleared_def)
  have h2: "\<exists>q opts. poll_to_quiz ?sc = Some (q, opts) \<and> 2 \<le> length opts \<and> (0::int) \<le> 1
               \<and> 1 < int (length opts)"
    by (simp add: cleared_def)
  have h3: "\<forall>q opts. fst (get_question_by_id 2 (store_of sample_questions)) = Some q
               \<and> options q = Some opts \<longrightarrow> (0::int) \<le> 3 \<and> 3 < int (length opts)"
    by (auto simp: get_question_by_id_stored stored_store_of sample_questions_def)
  from t h1 h2 h3 show ?thesis by blast
qed

theorem unchecked_index_breaks_store_counterexample:
  "store_valid (store_of sample_questions)
   \<and> \<not> store_valid (store_after (handle_edit_answer (Selection 1 7) cleared
                        (store_of sample_questions)))
   \<and> \<not> store_valid (store_after (get_answer (Some 5)
                        (cleared\<lparr>quiz_question := Some ''Q'', quiz_options := Some [''A'', ''B'']\<rparr>)
                        (store_of sample_questions)))"
  by (simp add: store_valid_samples store_valid_def handle_edit_answer_stored get_answer_store
        stored_after_save_any writable_after_load stored_store_of writable_store_of
        sample_questions_def valid_question_def cleared_def)

subsection \<open>Editing options, and a file that cannot be read\<close>





text \<open>
  C10. A questions file that cannot be read or parsed is read as the empty list, without
  an exception and without touching the file. So the next id is 1, no id is found, nothing
  is deleted, and the next handler that writes (when the write succeeds) replaces the file
  by what it writes alone: the new question with id 1 for \<open>get_answer\<close> and the poll
  conversion, the empty list for \<open>handle_edit_answer\<close>.
\<close>

theorem unreadable_file_reads_as_empty:
  assumes "questions_file st = Unreadable"
  shows "load_questions st = ([], st)
   \<and> get_next_question_id st = (1, st)
   \<and> get_question_by_id i st = (None, st)
   \<and> delete_question_by_id i st = (False, st)
   \<and> (questions_writable st \<longrightarrow>
        questions_file (store_after (get_answer (Some idx) sc st)) =
          Content [\<lparr>qid = Some 1, question = quiz_question sc, options = quiz_options sc,
                    answer = idx, category = Some ''User Created''\<rparr>]
      \<and> questions_file (store_after (handle_poll_to_quiz (Some idx)
                           (sc\<lparr>poll_to_quiz := Some (ptext, popts)\<rparr>) st)) =
          Content [\<lparr>qid = Some 1, question = Some ptext, options = Some popts,
                    answer = idx, category = Some ''Converted Poll''\<rparr>]
      \<and> questions_file (store_after (handle_edit_answer (Selection i idx) sc st)) = Content [])"
proof (intro conjI impI)
  show l: "load_questions st = ([], st)"
    using assms by (simp add: load_questions_def)
  then have s: "stored st = []" and sl: "snd (load_questions st) = st" by (simp_all add: stored_def)
  show "get_next_question_id st = (1, st)"
    by (simp add: get_next_question_id_def l)
  then have n: "fst (get_next_question_id st) = 1" by simp
  show "get_question_by_id i st = (None, st)"
    by (simp add: get_question_by_id_def l)
  show "delete_question_by_id i st = (False, st)"
    by (simp add: delete_question_by_id_def l)
  assume w: "questions_writable st"
  show "questions_file (store_after (get_answer (Some idx) sc st)) =
          Content [\<lparr>qid = Some 1, question = quiz_question sc, options = quiz_options sc,
                    answer = idx, category = Some ''User Created''\<rparr>]"
    using w by (simp add: get_answer_store s sl n save_questions_def)
  show "questions_file (store_after (handle_poll_to_quiz (Some idx)
                           (sc\<lparr>poll_to_quiz := Some (ptext, popts)\<rparr>) st)) =
          Content [\<lparr>qid = Some 1, question = Some ptext, options = Some popts,
                    answer = idx, category = Some ''Converted Poll''\<rparr>]"
    using w handle_poll_to_quiz_store [of "sc\<lparr>poll_to_quiz := Some (ptext, popts)\<rparr>" ptext popts idx st]
    by (simp add: s sl n save_questions_def)
  show "questions_file (store_after (handle_edit_answer (Selection i idx) sc st)) = Content []"
  proof -
    have "handle_edit_answer (Selection i idx) sc st =
            reply_after_edit i (sc\<lparr>editing := None\<rparr>) (st\<lparr>questions_file := Content []\<rparr>)"
      using w by (simp add: handle_edit_answer_def l save_questions_def)
    then show ?thesis
      by (simp add: reply_after_edit_store load_questions_def)
  qed
qed

theorem unreadable_file_reads_as_empty_witness:
  "load_questions \<lparr>questions_file = Unreadable, questions_writable = True\<rparr>
     = ([], \<lparr>questions_file = Unreadable, questions_writable = True\<rparr>)
   \<and> get_next_question_id \<lparr>questions_file = Unreadable, questions_writable = True\<rparr>
     = (1, \<lparr>questions_file = Unreadable, questions_writable = True\<rparr>)
   \<and> questions_file (store_after (get_answer (Some 1)
        (cleared\<lparr>quiz_question := Some ''What is 2+2?'', quiz_options := Some [''3'', ''4'', ''5'']\<rparr>)
        \<lparr>questions_file = Unreadable, questions_writable = True\<rparr>)) =
       Content [\<lparr>qid = Some 1, question = Some ''What is 2+2?'', options = Some [''3'', ''4'', ''5''],
                 answer = 1, category = Some ''User Created''\<rparr>]"
  using unreadable_file_reads_as_empty
          [of "\<lparr>questions_file = Unreadable, questions_writable = True\<rparr>" 0 1
              "cleared\<lparr>quiz_question := Some ''What is 2+2?'', quiz_options := Some [''3'', ''4'', ''5'']\<rparr>"]
  by (simp add: cleared_def)

subsection \<open>User statistics\<close>

lemma load_users_after_save:
  "users_writable us \<Longrightarrow> load_users (snd (save_user_data rows us)) = rows"
  by (simp add: load_users_def save_user_data_def)

lemma update_user_stats_rows:
  "users_writable us \<Longrightarrow>
   load_users (snd (update_user_stats uid uname c us)) =
     (load_users us)(py_str uid \<mapsto>
        (let row0 = (case load_users us (py_str uid) of
                       None \<Rightarrow> \<lparr>name = uname, correct = 0, total = 0\<rparr>
                     | Some row \<Rightarrow> row)
         in row0\<lparr>total := total row0 + 1,
                 correct := correct row0 + (if c then 1 else 0)\<rparr>))"
  by (simp add: update_user_stats_def Let_def load_users_after_save)

lemma handle_poll_answer_result:
  "fst (handle_poll_answer (Some a) sc us) =
     Inr (answer_user_id a,
          (case option_ids a of [] \<Rightarrow> None | x # _ \<Rightarrow> Some x) = quiz_correct_answer sc)"
  by (simp add: handle_poll_answer_def Let_def split: prod.splits)

lemma handle_poll_answer_users:
  "snd (handle_poll_answer (Some a) sc us) =
     snd (update_user_stats (answer_user_id a) (answer_user_name a)
            ((case option_ids a of [] \<Rightarrow> None | x # _ \<Rightarrow> Some x) = quiz_correct_answer sc) us)"
  by (simp add: handle_poll_answer_def Let_def split: prod.splits)

text \<open>
  C5. An answer event with a chosen option, handled with the responder's scratch while
  the users file can be written: the responder has a row afterwards (a missing one starts
  at 0 and 0), its total is one more than before, its correct count is one more exactly
  when the chosen index is the remembered correct index and unchanged otherwise, and the
  feedback says so. If every row had \<open>correct \<le> total\<close> before, every row has it after.
\<close>

theorem poll_answer_counts:
  assumes "option_ids a = x # xs" and "users_writable us"
  shows "(\<exists>row. stats_of (snd (handle_poll_answer (Some a) sc us)) (answer_user_id a) = Some row
           \<and> total row = (case stats_of us (answer_user_id a) of None \<Rightarrow> 0 | Some r \<Rightarrow> total r) + 1
           \<and> correct row = (case stats_of us (answer_user_id a) of None \<Rightarrow> 0 | Some r \<Rightarrow> correct r)
                              + (if quiz_correct_answer sc = Some x then 1 else 0))
    \<and> fst (handle_poll_answer (Some a) sc us)
           = Inr (answer_user_id a, quiz_correct_answer sc = Some x)
    \<and> ((\<forall>k r. load_users us k = Some r \<longrightarrow> correct r \<le> total r) \<longrightarrow>
         (\<forall>k r. load_users (snd (handle_poll_answer (Some a) sc us)) k = Some r
                 \<longrightarrow> correct r \<le> total r))"
proof -
  let ?us' = "snd (handle_poll_answer (Some a) sc us)"
  let ?c = "quiz_correct_answer sc = Some x"
  have sel: "((case option_ids a of [] \<Rightarrow> None | y # _ \<Rightarrow> Some y) = quiz_correct_answer sc) = ?c"
    using assms(1) by auto
  have rows: "load_users ?us' =
     (load_users us)(py_str (answer_user_id a) \<mapsto>
        (let row0 = (case load_users us (py_str (answer_user_id a)) of
                       None \<Rightarrow> \<lparr>name = answer_user_name a, correct = 0, total = 0\<rparr>
                     | Some row \<Rightarrow> row)
         in row0\<lparr>total := total row0 + 1, correct := correct row0 + (if ?c then 1 else 0)\<rparr>))"
    using assms(2) by (simp only: handle_poll_answer_users sel update_user_stats_rows)
  have p1: "\<exists>row. stats_of ?us' (answer_user_id a) = Some row
           \<and> total row = (case stats_of us (answer_user_id a) of None \<Rightarrow> 0 | Some r \<Rightarrow> total r) + 1
           \<and> correct row = (case stats_of us (answer_user_id a) of None \<Rightarrow> 0 | Some r \<Rightarrow> correct r)
                              + (if ?c then 1 else 0)"
    by (simp add: stats_of_def rows Let_def split: option.splits)
  have p2: "fst (handle_poll_answer (Some a) sc us) = Inr (answer_user_id a, ?c)"
    by (simp only: handle_poll_answer_result sel)
  have p3: "(\<forall>k r. load_users us k = Some r \<longrightarrow> correct r \<le> total r) \<longrightarrow>
         (\<forall>k r. load_users ?us' k = Some r \<longrightarrow> correct r \<le> total r)"
  proof (intro impI allI)
    fix k r
    assume inv: "\<forall>k r. load_users us k = Some r \<longrightarrow> correct r \<le> total r"
      and kr: "load_users ?us' k = Some r"
    show "correct r \<le> total r"
    proof (cases "k = py_str (answer_user_id a)")
      case False
      with kr rows inv show ?thesis by simp
    next
      case True
      show ?thesis
      proof (cases "load_users us k")
        case None
        with kr rows True show ?thesis by (auto simp: Let_def)
      next
        case (Some r0)
        with inv have "correct r0 \<le> total r0" by blast
        with Some kr rows True show ?thesis by (auto simp: Let_def)
      qed
    qed
  qed
  show ?thesis by (intro conjI p1 p2 p3)
qed

theorem poll_answer_counts_witness:
  "(\<exists>row. stats_of (snd (handle_poll_answer
              (Some \<lparr>answered_poll = 11, answer_user_id = 7, answer_user_name = ''Ann'',
                     option_ids = [2]\<rparr>)
              (cleared\<lparr>quiz_correct_answer := Some 2\<rparr>) (users_of Map.empty))) 7 = Some row
        \<and> total row = 1 \<and> correct row = 1)
   \<and> (\<exists>row. stats_of (snd (handle_poll_answer
              (Some \<lparr>answered_poll = 11, answer_user_id = 7, answer_user_name = ''Ann'',
                     option_ids = [0]\<rparr>)
              (cleared\<lparr>quiz_correct_answer := Some 2\<rparr>)
              (users_of [''7'' \<mapsto> \<lparr>name = ''Ann'', correct = 1, total = 1\<rparr>]))) 7 = Some row
        \<and> total row = 2 \<and> correct row = 1)"
proof -
  have k: "py_str 7 = ''7''" by (simp add: py_str_def digit_char_def)
  have w1: "users_writable (users_of Map.empty)" by (simp add: users_of_def)
  have w2: "users_writable (users_of [''7'' \<mapsto> \<lparr>name = ''Ann'', correct = 1, total = 1\<rparr>])"
    by (simp add: users_of_def)
  have o1: "option_ids \<lparr>answered_poll = 11, answer_user_id = 7, answer_user_name = ''Ann'',
                     option_ids = [2]\<rparr> = 2 # []" by simp
  have o2: "option_ids \<lparr>answered_poll = 11, answer_user_id = 7, answer_user_name = ''Ann'',
                     option_ids = [0]\<rparr> = 0 # []" by simp
  have s1: "stats_of (users_of Map.empty) 7 = None"
    by (simp add: stats_of_def load_users_def users_of_def)
  have s2: "stats_of (users_of [''7'' \<mapsto> \<lparr>name = ''Ann'', correct = 1, total = 1\<rparr>]) 7
              = Some \<lparr>name = ''Ann'', correct = 1, total = 1\<rparr>"
    by (simp add: stats_of_def load_users_def users_of_def k)
  have c: "quiz_correct_answer (cleared\<lparr>quiz_correct_answer := Some 2\<rparr>) = Some 2" by simp
  have t1: "\<exists>row. stats_of (snd (handle_poll_answer
              (Some \<lparr>answered_poll = 11, answer_user_id = 7, answer_user_name = ''Ann'',
                     option_ids = [2]\<rparr>)
              (cleared\<lparr>quiz_correct_answer := Some 2\<rparr>) (users_of Map.empty))) 7 = Some row
        \<and> total row = 1 \<and> correct row = 1"
    using poll_answer_counts [OF o1 w1, of "cleared\<lparr>quiz_correct_answer := Some 2\<rparr>", THEN conjunct1]
    by (simp add: s1 c)
  have t2: "\<exists>row. stats_of (snd (handle_poll_answer
              (Some \<lparr>answered_poll = 11, answer_user_id = 7, answer_user_name = ''Ann'',
                     option_ids = [0]\<rparr>)
              (cleared\<lparr>quiz_correct_answer := Some 2\<rparr>)
              (users_of [''7'' \<mapsto> \<lparr>name = ''Ann'', correct = 1, total = 1\<rparr>]))) 7 = Some row
        \<and> total row = 2 \<and> correct row = 1"
    using poll_answer_counts [OF o2 w2, of "cleared\<lparr>quiz_correct_answer := Some 2\<rparr>", THEN conjunct1]
    by (simp add: s2 c)
  show ?thesis by (intro conjI t1 t2)
qed

text \<open>
  C9, as the code has it. The name of a row is the display name of the event that created
  the row: an event for a user without a row stores its name, an event for a user with a
  row leaves the stored name as it is.
\<close>

theorem stats_name_is_first_seen:
  assumes "users_writable us"
  shows "map_option name (stats_of (snd (handle_poll_answer (Some a) sc us)) (answer_user_id a))
           = Some (case stats_of us (answer_user_id a) of
                     None \<Rightarrow> answer_user_name a
                   | Some r \<Rightarrow> name r)"
  using assms
  by (simp add: handle_poll_answer_users update_user_stats_rows stats_of_def Let_def
        split: option.splits)

theorem stats_name_is_first_seen_witness:
  "map_option name (stats_of (snd (handle_poll_answer
       (Some \<lparr>answered_poll = 11, answer_user_id = 7, answer_user_name = ''Ann B.'',
              option_ids = [0]\<rparr>) cleared (users_of Map.empty))) 7) = Some ''Ann B.''"
proof -
  have k: "py_str 7 = ''7''" by (simp add: py_str_def digit_char_def)
  have w: "users_writable (users_of Map.empty)" by (simp add: users_of_def)
  show ?thesis
    using stats_name_is_first_seen [OF w, of
            "\<lparr>answered_poll = 11, answer_user_id = 7, answer_user_name = ''Ann B.'',
              option_ids = [0]\<rparr>" cleared]
    by (simp add: stats_of_def load_users_def users_of_def k)
qed

theorem stats_name_not_last_seen_counterexample:
  "map_option name (stats_of (snd (handle_poll_answer
       (Some \<lparr>answered_poll = 11, answer_user_id = 7, answer_user_name = ''Ann B.'',
              option_ids = [0]\<rparr>) cleared
       (users_of [''7'' \<mapsto> \<lparr>name = ''Ann'', correct = 1, total = 1\<rparr>]))) 7) = Some ''Ann''
   \<and> map_option name (stats_of (snd (handle_poll_answer
       (Some \<lparr>answered_poll = 11, answer_user_id = 7, answer_user_name = ''Ann B.'',
              option_ids = [0]\<rparr>) cleared
       (users_of [''7'' \<mapsto> \<lparr>name = ''Ann'', correct = 1, total = 1\<rparr>]))) 7) \<noteq> Some ''Ann B.''"
proof -
  have k: "py_str 7 = ''7''" by (simp add: py_str_def digit_char_def)
  have w: "users_writable (users_of [''7'' \<mapsto> \<lparr>name = ''Ann'', correct = 1, total = 1\<rparr>])"
    by (simp add: users_of_def)
  have l: "load_users (users_of [''7'' \<mapsto> \<lparr>name = ''Ann'', correct = 1, total = 1\<rparr>])
             = [''7'' \<mapsto> \<lparr>name = ''Ann'', correct = 1, total = 1\<rparr>]"
    by (simp add: load_users_def users_of_def)
  show ?thesis
    by (simp add: handle_poll_answer_users update_user_stats_rows [OF w] stats_of_def Let_def l k)
qed

subsection \<open>Rounds\<close>

lemma play_scratch:
  "stored st \<noteq> [] \<Longrightarrow>
   fst (snd (play rnd c m sc st)) =
     sc\<lparr>quiz_correct_answer := Some (answer (stored st ! (rnd mod length (stored st)))),
        quiz_question_id := qid (stored st ! (rnd mod length (stored st))),
        quiz_message_id := Some m\<rparr>"
  by (cases "load_questions st") (simp add: play_def stored_def Let_def)

lemma play_poll:
  "stored st \<noteq> [] \<Longrightarrow>
   fst (play rnd c m sc st) =
     Some \<lparr>poll_message_id = m, poll_chat_id = c,
           poll_question = question (stored st ! (rnd mod length (stored st))),
           poll_options = options (stored st ! (rnd mod length (stored st))),
           correct_option_id = answer (stored st ! (rnd mod length (stored st)))\<rparr>"
  by (cases "load_questions st") (simp add: play_def stored_def Let_def)

lemma play_store: "snd (snd (play rnd c m sc st)) = snd (load_questions st)"
  by (cases "load_questions st") (simp add: play_def Let_def)

lemma on_play_unfold:
  "on_play u c rnd m b =
     b\<lparr>user_data := (user_data b)(u := fst (snd (play rnd c m (user_data b u) (bot_questions b)))),
       bot_questions := snd (snd (play rnd c m (user_data b u) (bot_questions b))),
       bot_polls := bot_polls b @
         (case fst (play rnd c m (user_data b u) (bot_questions b)) of
            None \<Rightarrow> [] | Some s \<Rightarrow> [s])\<rparr>"
  by (cases "play rnd c m (user_data b u) (bot_questions b)") (simp add: on_play_def)

lemma on_play_user_data:
  "user_data (on_play u c rnd m b) =
     (user_data b)(u := fst (snd (play rnd c m (user_data b u) (bot_questions b))))"
  by (simp add: on_play_unfold)

lemma on_play_stored: "stored (bot_questions (on_play u c rnd m b)) = stored (bot_questions b)"
  by (simp add: on_play_unfold play_store stored_after_load)

lemma on_play_polls:
  "stored (bot_questions b) \<noteq> [] \<Longrightarrow>
   bot_polls (on_play u c rnd m b) =
     bot_polls b @ [\<lparr>poll_message_id = m, poll_chat_id = c,
           poll_question = question (stored (bot_questions b) ! (rnd mod length (stored (bot_questions b)))),
           poll_options = options (stored (bot_questions b) ! (rnd mod length (stored (bot_questions b)))),
           correct_option_id = answer (stored (bot_questions b) ! (rnd mod length (stored (bot_questions b))))\<rparr>]"
  by (simp add: on_play_unfold play_poll)

lemma on_play_remembers:
  "stored (bot_questions b) \<noteq> [] \<Longrightarrow>
   quiz_correct_answer (user_data (on_play u c rnd m b) v) =
     (if v = u then Some (answer (stored (bot_questions b) ! (rnd mod length (stored (bot_questions b)))))
      else quiz_correct_answer (user_data b v))"
  by (simp add: on_play_user_data play_scratch)

text \<open>
  C7, as the code has it. The correct index of a round is remembered in the scratch
  \<open>play\<close> is given, the per-user \<open>context.user_data\<close> of the sender of \<open>/play\<close>; no
  chat is part of it. \<open>handle_poll_answer\<close>, called with an answer and a user's scratch,
  compares the chosen index with the index remembered there. After rounds started by two
  different users that is the index dispatched for the first user's own round, not the
  other user's; after two rounds started by the same user, in whatever chats, it is the
  index of the later round.
\<close>

theorem rounds_are_kept_per_user:
  assumes "stored (bot_questions b) \<noteq> []"
  shows "(u \<noteq> u' \<longrightarrow>
          fst (handle_poll_answer
                 (Some \<lparr>answered_poll = p, answer_user_id = v, answer_user_name = n,
                        option_ids = [x]\<rparr>)
                 (user_data (on_play u' c' rnd' m' (on_play u c rnd m b)) u) us)
            = Inr (v, x = answer (stored (bot_questions b) ! (rnd mod length (stored (bot_questions b))))))
       \<and> fst (handle_poll_answer
                 (Some \<lparr>answered_poll = p, answer_user_id = v, answer_user_name = n,
                        option_ids = [x]\<rparr>)
                 (user_data (on_play u c' rnd' m' (on_play u c rnd m b)) u) us)
            = Inr (v, x = answer (stored (bot_questions b) ! (rnd' mod length (stored (bot_questions b)))))
       \<and> map (\<lambda>s. (poll_chat_id s, correct_option_id s))
            (bot_polls (on_play u' c' rnd' m' (on_play u c rnd m b)))
           = map (\<lambda>s. (poll_chat_id s, correct_option_id s)) (bot_polls b)
             @ [(c, answer (stored (bot_questions b) ! (rnd mod length (stored (bot_questions b))))),
                (c', answer (stored (bot_questions b) ! (rnd' mod length (stored (bot_questions b)))))]"
proof (intro conjI impI)
  have s1: "stored (bot_questions (on_play u c rnd m b)) \<noteq> []"
    using assms by (simp add: on_play_stored)
  {
    assume "u \<noteq> u'"
    then show "fst (handle_poll_answer
                 (Some \<lparr>answered_poll = p, answer_user_id = v, answer_user_name = n,
                        option_ids = [x]\<rparr>)
                 (user_data (on_play u' c' rnd' m' (on_play u c rnd m b)) u) us)
            = Inr (v, x = answer (stored (bot_questions b) ! (rnd mod length (stored (bot_questions b)))))"
      using assms s1 by (simp add: handle_poll_answer_result on_play_remembers on_play_stored eq_commute)
  }
  show "fst (handle_poll_answer
                 (Some \<lparr>answered_poll = p, answer_user_id = v, answer_user_name = n,
                        option_ids = [x]\<rparr>)
                 (user_data (on_play u c' rnd' m' (on_play u c rnd m b)) u) us)
            = Inr (v, x = answer (stored (bot_questions b) ! (rnd' mod length (stored (bot_questions b)))))"
    using assms s1 by (simp add: handle_poll_answer_result on_play_remembers on_play_stored eq_commute)
  show "map (\<lambda>s. (poll_chat_id s, correct_option_id s))
            (bot_polls (on_play u' c' rnd' m' (on_play u c rnd m b)))
           = map (\<lambda>s. (poll_chat_id s, correct_option_id s)) (bot_polls b)
             @ [(c, answer (stored (bot_questions b) ! (rnd mod length (stored (bot_questions b))))),
                (c', answer (stored (bot_questions b) ! (rnd' mod length (stored (bot_questions b)))))]"
    using assms s1 by (simp add: on_play_polls on_play_stored)
qed

lemma stored_fresh_bot: "stored (bot_questions fresh_bot) = sample_questions"
  by (simp add: fresh_bot_def stored_store_of)

theorem rounds_are_kept_per_user_witness:
  "fst (handle_poll_answer
          (Some \<lparr>answered_poll = 11, answer_user_id = 7, answer_user_name = ''Ann'',
                 option_ids = [2]\<rparr>)
          (user_data (on_play 8 200 1 12 (on_play 7 100 0 11 fresh_bot)) 7)
          (users_of Map.empty)) = Inr (7, True)
   \<and> fst (handle_poll_answer
          (Some \<lparr>answered_poll = 11, answer_user_id = 7, answer_user_name = ''Ann'',
                 option_ids = [2]\<rparr>)
          (user_data (on_play 7 200 1 12 (on_play 7 100 0 11 fresh_bot)) 7)
          (users_of Map.empty)) = Inr (7, False)"
proof -
  have ne: "stored (bot_questions fresh_bot) \<noteq> []"
    by (simp add: stored_fresh_bot sample_questions_def)
  have d: "(7::int) \<noteq> 8" by simp
  note t = rounds_are_kept_per_user
             [OF ne, of 7 8 11 7 "''Ann''" 2 200 1 12 100 0 11 "users_of Map.empty"]
  from t d have "fst (handle_poll_answer
          (Some \<lparr>answered_poll = 11, answer_user_id = 7, answer_user_name = ''Ann'',
                 option_ids = [2]\<rparr>)
          (user_data (on_play 8 200 1 12 (on_play 7 100 0 11 fresh_bot)) 7)
          (users_of Map.empty)) = Inr (7, True)"
    by (simp add: stored_fresh_bot sample_questions_def)
  moreover from t have "fst (handle_poll_answer
          (Some \<lparr>answered_poll = 11, answer_user_id = 7, answer_user_name = ''Ann'',
                 option_ids = [2]\<rparr>)
          (user_data (on_play 7 200 1 12 (on_play 7 100 0 11 fresh_bot)) 7)
          (users_of Map.empty)) = Inr (7, False)"
    by (simp add: stored_fresh_bot sample_questions_def)
  ultimately show ?thesis by (intro conjI)
qed

theorem rounds_of_one_user_collide_counterexample:
  "map (\<lambda>s. (poll_message_id s, poll_chat_id s, correct_option_id s))
       (bot_polls (on_play 7 200 1 12 (on_play 7 100 0 11 fresh_bot)))
     = [(11, 100, 2), (12, 200, 1)]
   \<and> fst (handle_poll_answer
            (Some \<lparr>answered_poll = 11, answer_user_id = 7, answer_user_name = ''Ann'',
                   option_ids = [2]\<rparr>)
            (user_data (on_play 7 200 1 12 (on_play 7 100 0 11 fresh_bot)) 7)
            (users_of Map.empty)) = Inr (7, False)"
proof -
  have ne: "stored (bot_questions fresh_bot) \<noteq> []"
    by (simp add: stored_fresh_bot sample_questions_def)
  then have ne1: "stored (bot_questions (on_play 7 100 0 11 fresh_bot)) \<noteq> []"
    by (simp add: on_play_stored)
  have p: "bot_polls fresh_bot = []" by (simp add: fresh_bot_def)
  show ?thesis
    using ne ne1
    by (simp add: handle_poll_answer_result on_play_remembers on_play_polls on_play_stored
          stored_fresh_bot p sample_questions_def)
qed

subsection \<open>The import adapter\<close>

lemma quiz_of_message_zero: "quiz_of_message m = Some d \<Longrightarrow> draft_answer d = 0"
  by (auto simp: quiz_of_message_def Let_def split: tg_message.splits list.splits if_splits)

lemma pyrogram_method_zero: "pyrogram_method w url = Inr (Some d) \<Longrightarrow> draft_answer d = 0"
  by (auto simp: pyrogram_method_def split: option.splits prod.splits sum.splits
        dest: quiz_of_message_zero)

lemma direct_poll_zero: "direct_poll w content = Some d \<Longrightarrow> draft_answer d = 0"
  by (auto simp: direct_poll_def Let_def split: option.splits if_splits)

lemma quiz_of_embedded_text_zero: "quiz_of_embedded_text t = Some d \<Longrightarrow> draft_answer d = 0"
  by (auto simp: quiz_of_embedded_text_def Let_def split: list.splits if_splits)

lemma quiz_of_title_zero: "quiz_of_title w c = Inr (Some d) \<Longrightarrow> draft_answer d = 0"
  by (auto simp: quiz_of_title_def Let_def split: option.splits sum.splits if_splits)

lemma embedded_view_zero: "embedded_view w ch mid = Inr (Some d) \<Longrightarrow> draft_answer d = 0"
  by (auto simp: embedded_view_def split: option.splits sum.splits
        dest: quiz_of_title_zero quiz_of_embedded_text_zero)

lemma meta_tags_zero: "meta_tags w c = Inr (Some d) \<Longrightarrow> draft_answer d = 0"
  by (auto simp: meta_tags_def Let_def split: option.splits sum.splits if_splits)

lemma scrape_zero: "scrape w url = Inr (Some d) \<Longrightarrow> draft_answer d = 0"
  by (auto simp: scrape_def Let_def split: option.splits sum.splits if_splits prod.splits
        dest: direct_poll_zero embedded_view_zero meta_tags_zero)

lemma body_never_raises: "\<exists>r. parse_telegram_quiz_url_body w url = Inr r"
  by (auto simp: parse_telegram_quiz_url_body_def Let_def split: option.splits sum.splits)

lemma body_zero: "parse_telegram_quiz_url_body w url = Inr (Some d) \<Longrightarrow> draft_answer d = 0"
  by (auto simp: parse_telegram_quiz_url_body_def Let_def split: option.splits sum.splits if_splits
        dest: pyrogram_method_zero scrape_zero)

text \<open>
  C8. For every URL and whatever the network, the pattern matcher, the HTML parser and
  the Telegram client return or raise, \<open>parse_telegram_quiz_url\<close> returns: either
  \<open>None\<close> or a draft of a question and options whose answer is 0. No exception of class
  \<open>Exception\<close> leaves it.
\<close>

theorem parse_telegram_quiz_url_never_raises:
  "parse_telegram_quiz_url w url = Inr None
   \<or> (\<exists>d. parse_telegram_quiz_url w url = Inr (Some d) \<and> draft_answer d = 0)"
proof -
  obtain r where b: "parse_telegram_quiz_url_body w url = Inr r"
    using body_never_raises by blast
  then have p: "parse_telegram_quiz_url w url = Inr r"
    by (simp add: parse_telegram_quiz_url_def)
  show ?thesis
  proof (cases r)
    case None
    with p show ?thesis by simp
  next
    case (Some d)
    with b have "draft_answer d = 0" by (simp add: body_zero)
    with p Some show ?thesis by simp
  qed
qed

theorem parse_telegram_quiz_url_never_raises_witness:
  "parse_telegram_quiz_url offline_web ''https://t.me/quiz/5'' = Inr None
   \<and> parse_telegram_quiz_url offline_web ''not a link'' = Inr None
   \<and> parse_telegram_quiz_url poll_page_web ''https://t.me/quiz/5''
       = Inr (Some \<lparr>draft_question = ''Capital of France?'', draft_options = [''Paris'', ''Rome''],
                     draft_answer = 0\<rparr>)"
proof -
  have 1: "parse_telegram_quiz_url offline_web ''https://t.me/quiz/5'' = Inr None"
    using parse_telegram_quiz_url_never_raises [of offline_web "''https://t.me/quiz/5''"]
    by (simp add: parse_telegram_quiz_url_def parse_telegram_quiz_url_body_def offline_web_def
          pyrogram_method_def scrape_def)
  have 2: "parse_telegram_quiz_url offline_web ''not a link'' = Inr None"
    by (simp add: parse_telegram_quiz_url_def parse_telegram_quiz_url_body_def)
  have 3: "parse_telegram_quiz_url poll_page_web ''https://t.me/quiz/5''
       = Inr (Some \<lparr>draft_question = ''Capital of France?'', draft_options = [''Paris'', ''Rome''],
                     draft_answer = 0\<rparr>)"
    by (simp add: parse_telegram_quiz_url_def parse_telegram_quiz_url_body_def poll_page_web_def
          offline_web_def scrape_def direct_poll_def strip_def isspace_def)
  show ?thesis by (intro conjI 1 2 3)
qed

subsection \<open>Ids stay unique\<close>

text \<open>
  The uniqueness of ids that the deletion result relies on holds for the seeded file and is
  kept by both handlers that create a record: the new id is not among the stored ones.
\<close>

lemma next_id_not_stored: "Some (fst (get_next_question_id st)) \<notin> set (map qid (stored st))"
proof
  assume "Some (fst (get_next_question_id st)) \<in> set (map qid (stored st))"
  then obtain q where q: "q \<in> set (stored st)" and i: "qid q = Some (fst (get_next_question_id st))"
    by auto
  from i have "get_id_or_0 q = fst (get_next_question_id st)" by (simp add: get_id_or_0_def)
  with get_next_question_id_fresh [OF q] show False by simp
qed

lemma created_ids_stay_distinct:
  assumes "distinct (map qid (stored st))"
  shows "distinct (map qid (stored (store_after (get_answer (Some idx) sc st))))"
    and "distinct (map qid (stored (store_after (handle_poll_to_quiz (Some idx) sc st))))"
proof -
  show "distinct (map qid (stored (store_after (get_answer (Some idx) sc st))))"
    using assms next_id_not_stored [of st]
    by (simp add: get_answer_store stored_after_save_any writable_after_load stored_after_load)
  show "distinct (map qid (stored (store_after (handle_poll_to_quiz (Some idx) sc st))))"
  proof (cases "poll_to_quiz sc")
    case None
    then show ?thesis using assms by (simp add: handle_poll_to_quiz_no_draft)
  next
    case (Some p)
    then obtain q opts where "poll_to_quiz sc = Some (q, opts)" by (cases p) simp
    then show ?thesis
      using assms next_id_not_stored [of st]
      by (simp add: handle_poll_to_quiz_store stored_after_save_any writable_after_load
            stored_after_load)
  qed
qed

lemma sample_ids_distinct: "distinct (map qid sample_questions)"
  by (simp add: sample_questions_def)

end
